theory Spec2Isabelle
  imports Main "HOL-Library.Word"
begin

section \<open>The C++ side: types, values and introspected structs\<close>

text \<open>
  The C++ types that \<^verbatim>\<open>hanapy.cpp\<close> names: the fundamental types of the
  packet fields, \<^verbatim>\<open>std::vector\<close>, the four packet structs and the two class
  templates, whose parameters are an \<^verbatim>\<open>int\<close> and a type.
\<close>

datatype ctype =
    int32_t
  | float
  | double
  | std_vector ctype
  | SomePacketOld
  | AnotherPacketOld
  | TensorOld int ctype
  | SomePacket
  | AnotherPacket
  | Tensor int ctype

text \<open>
  C++ values. A floating-point number is kept as its bit pattern: the program stores
  and copies such numbers and never computes with them. A vector carries its element
  type, a struct its type and its data members (name and value) in declaration order.
\<close>

datatype cvalue =
    VInt32 "32 word"
  | VFloat "32 word"
  | VDouble "64 word"
  | VVector ctype "cvalue list"
  | VStruct ctype "(string \<times> cvalue) list"

text \<open>\<^verbatim>\<open>decltype\<close> of a value.\<close>

fun decltype :: "cvalue \<Rightarrow> ctype" where
  "decltype (VInt32 _) = int32_t"
| "decltype (VFloat _) = float"
| "decltype (VDouble _) = double"
| "decltype (VVector T _) = std_vector T"
| "decltype (VStruct P _) = P"

text \<open>
  \<^verbatim>\<open>c_str()\<close> gives a C string: what is read from it are the characters before
  the first NUL.
\<close>

definition c_str :: "string \<Rightarrow> string" where
  "c_str s = takeWhile (\<lambda>c. c \<noteq> CHR 0x00) s"

text \<open>
  A template argument of type \<^verbatim>\<open>int\<close>: a constant that \<^verbatim>\<open>int\<close> (32
  bits) cannot hold is a narrowing conversion, and the program does not compile.
\<close>

definition fits_int :: "int \<Rightarrow> bool" where
  "fits_int d = (- 2147483648 \<le> d \<and> d \<le> 2147483647)"

text \<open>
  The argument list of \<^verbatim>\<open>BOOST_HANA_DEFINE_STRUCT\<close> in each struct that uses
  the macro (lines 25 to 32): (type, name) pairs. The other types are not Hana structs.
\<close>

fun BOOST_HANA_DEFINE_STRUCT :: "ctype \<Rightarrow> (ctype \<times> string) list option" where
  "BOOST_HANA_DEFINE_STRUCT SomePacket =
     Some [(int32_t, ''id''), (float, ''some_payload'')]"
| "BOOST_HANA_DEFINE_STRUCT AnotherPacket =
     Some [(int32_t, ''id''), (std_vector float, ''another_payload'')]"
| "BOOST_HANA_DEFINE_STRUCT _ = None"

text \<open>
  The data members of every class type, in declaration order: written out for the old
  style packets (lines 11 to 19), defined by the macro for the introspected ones, none
  for the two empty class templates (lines 21 to 22 and 34 to 35).
\<close>

fun data_members :: "ctype \<Rightarrow> (ctype \<times> string) list" where
  "data_members SomePacketOld = [(int32_t, ''id''), (float, ''some_payload'')]"
| "data_members AnotherPacketOld = [(int32_t, ''id''), (std_vector float, ''another_payload'')]"
| "data_members T = (case BOOST_HANA_DEFINE_STRUCT T of Some fs \<Rightarrow> fs | None \<Rightarrow> [])"

text \<open>Value initialisation of a data member, and of a whole struct (\<^verbatim>\<open>P{}\<close>).\<close>

fun member_init :: "ctype \<Rightarrow> cvalue" where
  "member_init int32_t = VInt32 0"
| "member_init float = VFloat 0"
| "member_init double = VDouble 0"
| "member_init (std_vector T) = VVector T []"
| "member_init T = VStruct T []"

definition value_init :: "ctype \<Rightarrow> cvalue" where
  "value_init P = VStruct P (map (\<lambda>f. (snd f, member_init (fst f))) (data_members P))"

text \<open>
  A pointer to a data member (\<^verbatim>\<open>&P::name\<close>). Hana's accessor of a member
  defined by the macro is a stateless function object around such a pointer.
\<close>

datatype accessor = member_ptr ctype string

fun member_get :: "accessor \<Rightarrow> cvalue \<Rightarrow> cvalue option" where
  "member_get (member_ptr P n) (VStruct Q fs) = (if P = Q then map_of fs n else None)"
| "member_get _ _ = None"

fun member_set :: "accessor \<Rightarrow> cvalue \<Rightarrow> cvalue \<Rightarrow> cvalue option" where
  "member_set (member_ptr P n) (VStruct Q fs) v =
     (case map_of fs n of
        None \<Rightarrow> None
      | Some old \<Rightarrow>
          if P = Q \<and> decltype v = decltype old
          then Some (VStruct Q (map (\<lambda>f. if fst f = n then (n, v) else f) fs))
          else None)"
| "member_set _ _ _ = None"

section \<open>The parts of Boost.Hana the program calls\<close>

text \<open>
  A Hana tuple is a list here; its elements, of different C++ types, are values of one
  HOL type. \<^verbatim>\<open>hana::members\<close> gives the member values of a struct and
  \<^verbatim>\<open>hana::accessors\<close> the (name, accessor) pairs, both in declaration order.
  For a type that is not a Hana struct these calls do not compile; the program makes
  them for the types of its list of packets only, and the empty list stands for the
  rest.
\<close>

fun hana_members :: "cvalue \<Rightarrow> cvalue list" where
  "hana_members (VStruct P fs) = map snd fs"
| "hana_members _ = []"

definition hana_accessors :: "ctype \<Rightarrow> (string \<times> accessor) list" where
  "hana_accessors P =
     (case BOOST_HANA_DEFINE_STRUCT P of
        None \<Rightarrow> []
      | Some fs \<Rightarrow> map (\<lambda>f. (snd f, member_ptr P (snd f))) fs)"

definition hana_transform :: "'a list \<Rightarrow> ('a \<Rightarrow> 'b) \<Rightarrow> 'b list" where
  "hana_transform xs f = map f xs"

definition hana_unpack :: "'a list \<Rightarrow> ('a list \<Rightarrow> 'b) \<Rightarrow> 'b" where
  "hana_unpack xs f = f xs"

text \<open>\<^verbatim>\<open>hana::fold\<close> is the left fold: the state is the first argument of the step.\<close>

definition hana_fold :: "'a list \<Rightarrow> 's \<Rightarrow> ('s \<Rightarrow> 'a \<Rightarrow> 's) \<Rightarrow> 's" where
  "hana_fold xs s f = foldl f s xs"

text \<open>
  \<^verbatim>\<open>hana::cartesian_product\<close> of two tuples, in Hana's order: the first
  component varies slowest.
\<close>

fun cartesian_product :: "'a list \<Rightarrow> 'b list \<Rightarrow> ('a \<times> 'b) list" where
  "cartesian_product [] ys = []"
| "cartesian_product (x # xs) ys = map (\<lambda>y. (x, y)) ys @ cartesian_product xs ys"

section \<open>The parts of pybind11 the program calls\<close>

text \<open>
  What a binding function does when Python calls it: \<^verbatim>\<open>py::init<Args...>\<close>
  constructs from arguments of the given types, the getter and setter of
  \<^verbatim>\<open>def_readwrite\<close> read and assign a member, and \<open>lambda\<close> is the lambda of
  line 91, which applies the accessor to its argument and returns the result by value
  (its return type is deduced, so the reference that the accessor gives decays to a
  copy). The lambda captures the pair \<^verbatim>\<open>ka\<close> by reference; the accessor in it
  has no state, and the function is determined by the member it points to.
\<close>

datatype cpp_function =
    constructor "ctype list"
  | lambda accessor
  | fget accessor
  | fset accessor

datatype attribute =
    py_method cpp_function
  | property cpp_function cpp_function

record class_rec =
  cpp_type :: ctype
  py_name :: string
  attrs :: "(string \<times> attribute) list"

record py_module =
  m_name :: string
  doc :: string
  classes :: "class_rec list"

text \<open>
  A registration throws when the name is not a Python string (the C string is decoded
  as UTF-8), when the scope already has an attribute of that name
  (\<^verbatim>\<open>an object with that name is already defined\<close>), or when the C++ type is
  already bound (\<^verbatim>\<open>is already registered\<close>); the exception leaves the module
  initialisation and the import fails. \<open>AttributeError\<close> and \<open>TypeError\<close>
  are Python's, raised when a binding is used. \<open>does_not_compile\<close> is no
  run-time error: it stands for a program that the compiler rejects.
\<close>

datatype error =
    UnicodeDecodeError
  | already_defined string
  | already_registered string
  | AttributeError
  | TypeError
  | does_not_compile

text \<open>
  Well-formed UTF-8, on the values of the bytes: a byte below 0x80 stands alone, a
  lead byte 0xC2 to 0xF4 is followed by one to three continuation bytes, and the
  first of them is restricted after 0xE0, 0xED, 0xF0 and 0xF4 (no overlong form, no
  surrogate, nothing above U+10FFFF).
\<close>

definition trail :: "nat \<Rightarrow> nat" where
  "trail b = (if b < 0x80 then 0 else if b < 0xE0 then 1 else if b < 0xF0 then 2 else 3)"

definition continuation :: "nat \<Rightarrow> bool" where
  "continuation c = (0x80 \<le> c \<and> c \<le> 0xBF)"

definition well_formed :: "nat \<Rightarrow> nat list \<Rightarrow> bool" where
  "well_formed b cs =
     (if b < 0x80 then True
      else 0xC2 \<le> b \<and> b \<le> 0xF4 \<and> list_all continuation cs \<and>
        (case cs of
           [] \<Rightarrow> False
         | c # _ \<Rightarrow>
             (if b = 0xE0 then 0xA0 \<le> c
              else if b = 0xED then c \<le> 0x9F
              else if b = 0xF0 then 0x90 \<le> c
              else if b = 0xF4 then c \<le> 0x8F
              else True)))"

fun utf8 :: "nat list \<Rightarrow> bool" where
  "utf8 [] = True"
| "utf8 (b # bs) =
     (trail b \<le> length bs \<and> well_formed b (take (trail b) bs) \<and> utf8 (drop (trail b) bs))"

text \<open>Whether Python can make a string of a C string.\<close>

definition PyUnicode_DecodeUTF8 :: "string \<Rightarrow> bool" where
  "PyUnicode_DecodeUTF8 s = utf8 (map of_char s)"

definition PyModule_New :: "string \<Rightarrow> py_module" where
  "PyModule_New n = \<lparr>m_name = n, doc = [], classes = []\<rparr>"

text \<open>The names bound in a module: those every module object has, and its classes.\<close>

definition module_attrs :: "py_module \<Rightarrow> string list" where
  "module_attrs m =
     [''__name__'', ''__doc__'', ''__package__'', ''__loader__'', ''__spec__'']
       @ map py_name (classes m)"

text \<open>
  \<^verbatim>\<open>py::class_<T>(m, name)\<close>. The handle it gives is the module together with
  \<open>T\<close>: the class object lives in the module, and \<^verbatim>\<open>def\<close> on the handle
  changes it there.
\<close>

type_synonym class_handle = "py_module \<times> ctype"

definition py_class :: "py_module \<Rightarrow> ctype \<Rightarrow> string \<Rightarrow> error + class_handle" where
  "py_class m T name =
     (if \<not> PyUnicode_DecodeUTF8 name then Inl UnicodeDecodeError
      else if name \<in> set (module_attrs m) then Inl (already_defined name)
      else if T \<in> set (map cpp_type (classes m)) then Inl (already_registered name)
      else Inr (m\<lparr>classes := classes m @ [\<lparr>cpp_type = T, py_name = name, attrs = []\<rparr>]\<rparr>, T))"

definition add_attr :: "class_handle \<Rightarrow> string \<Rightarrow> attribute \<Rightarrow> class_handle" where
  "add_attr c name a =
     ((fst c)\<lparr>classes :=
         map (\<lambda>k. if cpp_type k = snd c then k\<lparr>attrs := attrs k @ [(name, a)]\<rparr> else k)
           (classes (fst c))\<rparr>,
      snd c)"

definition def :: "class_handle \<Rightarrow> string \<Rightarrow> cpp_function \<Rightarrow> class_handle" where
  "def c name f = add_attr c name (py_method f)"

text \<open>\<^verbatim>\<open>.def(py::init<Args...>())\<close> defines the method \<^verbatim>\<open>__init__\<close>.\<close>

definition def_init :: "class_handle \<Rightarrow> cpp_function \<Rightarrow> class_handle" where
  "def_init c init = def c ''__init__'' init"

definition def_readwrite :: "class_handle \<Rightarrow> string \<Rightarrow> accessor \<Rightarrow> class_handle" where
  "def_readwrite c name pm = add_attr c name (property (fget pm) (fset pm))"

section \<open>The module initialisation\<close>

text \<open>Sequencing of statements that may throw.\<close>

fun and_then :: "error + 'a \<Rightarrow> ('a \<Rightarrow> error + 'b) \<Rightarrow> error + 'b" where
  "and_then (Inl e) f = Inl e"
| "and_then (Inr x) f = f x"

text \<open>\<^verbatim>\<open>hana::for_each\<close> with a body that changes the module and may throw.\<close>

fun hana_for_each :: "'a list \<Rightarrow> ('a \<Rightarrow> 's \<Rightarrow> error + 's) \<Rightarrow> 's \<Rightarrow> error + 's" where
  "hana_for_each [] f s = Inr s"
| "hana_for_each (x # xs) f s = and_then (f x s) (hana_for_each xs f)"

text \<open>Lines 41 to 49: the old style bindings of the packets.\<close>

definition old_style_user_defined_bindings :: "py_module \<Rightarrow> error + py_module" where
  "old_style_user_defined_bindings m =
     and_then (py_class m SomePacketOld ''some_packet_old'') (\<lambda>c.
       let c = def_init c (constructor [int32_t, float]);
           c = def_readwrite c ''id'' (member_ptr SomePacketOld ''id'');
           c = def_readwrite c ''some_payload'' (member_ptr SomePacketOld ''some_payload'')
       in
     and_then (py_class (fst c) AnotherPacketOld ''another_packet_old'') (\<lambda>c.
       let c = def_init c (constructor [int32_t, std_vector float]);
           c = def_readwrite c ''id'' (member_ptr AnotherPacketOld ''id'');
           c = def_readwrite c ''another_payload''
                 (member_ptr AnotherPacketOld ''another_payload'')
       in Inr (fst c)))"

text \<open>Lines 52 to 63: the old style bindings of the tensors, one statement each.\<close>

definition old_style_tensor_bindings :: "py_module \<Rightarrow> error + py_module" where
  "old_style_tensor_bindings m =
     hana_for_each
       [(TensorOld 1 float, ''tensor_old_1d_f''),
        (TensorOld 2 float, ''tensor_old_2d_f''),
        (TensorOld 3 float, ''tensor_old_3d_f''),
        (TensorOld 4 float, ''tensor_old_4d_f''),
        (TensorOld 5 float, ''tensor_old_5d_f''),
        (TensorOld 6 float, ''tensor_old_6d_f''),
        (TensorOld 1 double, ''tensor_old_1d_d''),
        (TensorOld 2 double, ''tensor_old_2d_d''),
        (TensorOld 3 double, ''tensor_old_3d_d''),
        (TensorOld 4 double, ''tensor_old_4d_d''),
        (TensorOld 5 double, ''tensor_old_5d_d''),
        (TensorOld 6 double, ''tensor_old_6d_d'')]
       (\<lambda>s m. and_then (py_class m (fst s) (snd s)) (\<lambda>c. Inr (fst c)))
       m"

text \<open>Lines 66 to 68.\<close>

definition packets :: "(string \<times> ctype) list" where
  "packets = [(''some_packet'', SomePacket), (''another_packet'', AnotherPacket)]"

text \<open>
  Lines 70 to 99, the body of the loop over the packets: \<open>x\<close> is the (name, type)
  pair. The steps are numbered as in the source.
\<close>

definition bind_packet :: "string \<times> ctype \<Rightarrow> py_module \<Rightarrow> error + py_module" where
  "bind_packet x m =
     (let P = snd x;
          types = hana_transform (hana_members (value_init P)) decltype;
          Init = hana_unpack types constructor
      in and_then (py_class m P (c_str (fst x))) (\<lambda>c.
           let packet = def_init c Init;
               packet = hana_fold (hana_accessors P) packet
                          (\<lambda>c ka. def c (c_str (fst ka)) (lambda (snd ka)))
           in Inr (fst packet)))"

text \<open>Lines 102 to 108: the two axes, (name, value) pairs.\<close>

definition ds :: "(string \<times> int) list" where
  "ds = [(''1d'', 1), (''2d'', 2), (''3d'', 3), (''4d'', 4), (''5d'', 5), (''6d'', 6)]"

definition ts :: "(string \<times> ctype) list" where
  "ts = [(''f'', float), (''d'', double)]"

text \<open>
  Lines 112 to 118, the body of the loop over the combinations. The name is built
  from the C strings of the two component names (lines 115 and 116), and its C string
  is what is registered (line 117). The dimension becomes the \<^verbatim>\<open>int\<close>
  argument of the template.
\<close>

definition tensor_name :: "(string \<times> int) \<times> (string \<times> ctype) \<Rightarrow> string" where
  "tensor_name dt = ''tensor_'' @ c_str (fst (fst dt)) @ ''_'' @ c_str (fst (snd dt))"

definition bind_tensor :: "(string \<times> int) \<times> (string \<times> ctype) \<Rightarrow> py_module \<Rightarrow> error + py_module" where
  "bind_tensor dt m =
     (let d = snd (fst dt);
          T = snd (snd dt);
          name = tensor_name dt
      in if \<not> fits_int d then Inl does_not_compile
         else and_then (py_class m (Tensor d T) (c_str name)) (\<lambda>c. Inr (fst c)))"

text \<open>
  The body of \<^verbatim>\<open>PYBIND11_MODULE(hanapy, m)\<close>, lines 38 to 118, as a function of
  the three tuples that the source declares inside it. The loop over the combinations
  is unrolled by the compiler: when its body does not compile for one combination,
  there is no program, whatever the statements before it would do.
\<close>

definition module_body ::
  "(string \<times> ctype) list \<Rightarrow> (string \<times> int) list \<Rightarrow> (string \<times> ctype) list
     \<Rightarrow> py_module \<Rightarrow> error + py_module" where
  "module_body pkts dims scalars m =
     (if list_ex (\<lambda>dt. \<not> fits_int (snd (fst dt))) (cartesian_product dims scalars)
      then Inl does_not_compile
      else
        and_then
          (old_style_user_defined_bindings (m\<lparr>doc := ''Boost.Hana + pybind11 example''\<rparr>))
          (\<lambda>m. and_then (old_style_tensor_bindings m)
          (\<lambda>m. and_then (hana_for_each pkts bind_packet m)
          (\<lambda>m. hana_for_each (cartesian_product dims scalars) bind_tensor m))))"

definition PYBIND11_MODULE_hanapy :: "error + py_module" where
  "PYBIND11_MODULE_hanapy = module_body packets ds ts (PyModule_New ''hanapy'')"

section \<open>Using the bindings from Python\<close>

text \<open>
  Python objects live in a heap, addressed by their position: \<open>wrapped\<close> is an
  instance of a bound class and holds the C++ object, \<open>converted\<close> is the Python
  number or list that a type caster builds from a C++ value (always a new object),
  \<open>bound_method\<close> is the result of reading a method through an instance.
\<close>

datatype pyobject =
    wrapped cvalue
  | converted cvalue
  | bound_method nat cpp_function
  | py_None

type_synonym heap = "pyobject list"

definition load :: "heap \<Rightarrow> nat \<Rightarrow> pyobject option" where
  "load h a = (if a < length h then Some (h ! a) else None)"

definition store :: "heap \<Rightarrow> nat \<Rightarrow> pyobject \<Rightarrow> heap" where
  "store h a ob = h[a := ob]"

definition alloc :: "heap \<Rightarrow> pyobject \<Rightarrow> heap \<times> nat" where
  "alloc h ob = (h @ [ob], length h)"

text \<open>The class bound to a C++ type.\<close>

definition get_type_info :: "py_module \<Rightarrow> ctype \<Rightarrow> class_rec option" where
  "get_type_info m T = find (\<lambda>k. cpp_type k = T) (classes m)"

text \<open>
  Running a binding function on the C++ object \<open>self\<close> with further arguments:
  the object afterwards and the value returned, if any. Arguments that do not fit the
  function's parameters are a \<open>TypeError\<close>. The constructor initialises the
  members from its arguments, in declaration order.
\<close>

fun invoke :: "cpp_function \<Rightarrow> cvalue \<Rightarrow> cvalue list \<Rightarrow> error + cvalue \<times> cvalue option" where
  "invoke (constructor Ts) self args =
     (if map decltype args = Ts \<and> Ts = map fst (data_members (decltype self))
      then Inr (VStruct (decltype self) (zip (map snd (data_members (decltype self))) args), None)
      else Inl TypeError)"
| "invoke (lambda ka) self args =
     (case (args, member_get ka self) of
        ([], Some v) \<Rightarrow> Inr (self, Some v)
      | _ \<Rightarrow> Inl TypeError)"
| "invoke (fget pm) self args =
     (case (args, member_get pm self) of
        ([], Some v) \<Rightarrow> Inr (self, Some v)
      | _ \<Rightarrow> Inl TypeError)"
| "invoke (fset pm) self args =
     (case args of
        [v] \<Rightarrow> (case member_set pm self v of
                  Some self' \<Rightarrow> Inr (self', None)
                | None \<Rightarrow> Inl TypeError)
      | _ \<Rightarrow> Inl TypeError)"

text \<open>
  Running a function on the instance at address \<open>a\<close>: the instance is written
  back and the result is a new Python object.
\<close>

definition run :: "heap \<Rightarrow> nat \<Rightarrow> cpp_function \<Rightarrow> cvalue list \<Rightarrow> error + heap \<times> nat" where
  "run h a f args =
     (case load h a of
        Some (wrapped self) \<Rightarrow>
          and_then (invoke f self args) (\<lambda>r.
            Inr (alloc (store h a (wrapped (fst r)))
                   (case snd r of Some v \<Rightarrow> converted v | None \<Rightarrow> py_None)))
      | _ \<Rightarrow> Inl TypeError)"

text \<open>
  \<^verbatim>\<open>obj.name\<close> for an instance of a bound class. The classes of this module
  define no name twice, so the first definition of a name is the only one.
\<close>

definition py_getattr :: "py_module \<Rightarrow> heap \<Rightarrow> nat \<Rightarrow> string \<Rightarrow> error + heap \<times> nat" where
  "py_getattr m h a name =
     (case load h a of
        Some (wrapped self) \<Rightarrow>
          (case get_type_info m (decltype self) of
             None \<Rightarrow> Inl TypeError
           | Some k \<Rightarrow>
               (case map_of (attrs k) name of
                  None \<Rightarrow> Inl AttributeError
                | Some (py_method f) \<Rightarrow> Inr (alloc h (bound_method a f))
                | Some (property g s) \<Rightarrow> run h a g []))
      | _ \<Rightarrow> Inl TypeError)"

text \<open>
  \<^verbatim>\<open>obj.name = v\<close> for an instance of a bound class: only a property has a
  setter. The instances have no dictionary of their own, so any other name is refused.
\<close>

definition py_setattr :: "py_module \<Rightarrow> heap \<Rightarrow> nat \<Rightarrow> string \<Rightarrow> cvalue \<Rightarrow> error + heap" where
  "py_setattr m h a name v =
     (case load h a of
        Some (wrapped self) \<Rightarrow>
          (case get_type_info m (decltype self) of
             None \<Rightarrow> Inl TypeError
           | Some k \<Rightarrow>
               (case map_of (attrs k) name of
                  Some (property g s) \<Rightarrow> and_then (run h a s [v]) (\<lambda>r. Inr (fst r))
                | _ \<Rightarrow> Inl AttributeError))
      | _ \<Rightarrow> Inl TypeError)"

text \<open>\<^verbatim>\<open>callee(args)\<close> and \<^verbatim>\<open>obj.name(args)\<close>.\<close>

definition py_call :: "heap \<Rightarrow> nat \<Rightarrow> cvalue list \<Rightarrow> error + heap \<times> nat" where
  "py_call h callee args =
     (case load h callee of
        Some (bound_method a f) \<Rightarrow> run h a f args
      | _ \<Rightarrow> Inl TypeError)"

definition py_call_method ::
  "py_module \<Rightarrow> heap \<Rightarrow> nat \<Rightarrow> string \<Rightarrow> cvalue list \<Rightarrow> error + heap \<times> nat" where
  "py_call_method m h a name args =
     and_then (py_getattr m h a name) (\<lambda>r. py_call (fst r) (snd r) args)"

text \<open>
  The class that one pass of the loop over the combinations registers (line 117), and
  the test whether a C++ type is an instance of the template \<^verbatim>\<open>Tensor\<close>.
\<close>

definition tensor_binding :: "(string \<times> int) \<times> (string \<times> ctype) \<Rightarrow> class_rec" where
  "tensor_binding dt =
     \<lparr>cpp_type = Tensor (snd (fst dt)) (snd (snd dt)), py_name = tensor_name dt, attrs = []\<rparr>"

fun is_Tensor :: "ctype \<Rightarrow> bool" where
  "is_Tensor (Tensor d T) = True"
| "is_Tensor _ = False"

section \<open>The module that the initialisation builds\<close>

lemmas binding_defs =
  module_body_def old_style_user_defined_bindings_def old_style_tensor_bindings_def
  bind_packet_def bind_tensor_def tensor_name_def py_class_def module_attrs_def
  add_attr_def def_def def_init_def def_readwrite_def PyModule_New_def
  hana_transform_def hana_unpack_def hana_fold_def hana_accessors_def value_init_def
  packets_def ds_def ts_def c_str_def fits_int_def PyUnicode_DecodeUTF8_def trail_def
  continuation_def well_formed_def

lemma hanapy_result:
  "PYBIND11_MODULE_hanapy = Inr
     \<lparr>m_name = ''hanapy'', doc = ''Boost.Hana + pybind11 example'',
      classes =
        [\<lparr>cpp_type = SomePacketOld, py_name = ''some_packet_old'',
           attrs =
             [(''__init__'', py_method (constructor [int32_t, float])),
              (''id'', property (fget (member_ptr SomePacketOld ''id''))
                         (fset (member_ptr SomePacketOld ''id''))),
              (''some_payload'', property (fget (member_ptr SomePacketOld ''some_payload''))
                         (fset (member_ptr SomePacketOld ''some_payload'')))]\<rparr>,
         \<lparr>cpp_type = AnotherPacketOld, py_name = ''another_packet_old'',
           attrs =
             [(''__init__'', py_method (constructor [int32_t, std_vector float])),
              (''id'', property (fget (member_ptr AnotherPacketOld ''id''))
                         (fset (member_ptr AnotherPacketOld ''id''))),
              (''another_payload'',
                 property (fget (member_ptr AnotherPacketOld ''another_payload''))
                   (fset (member_ptr AnotherPacketOld ''another_payload'')))]\<rparr>,
         \<lparr>cpp_type = TensorOld 1 float, py_name = ''tensor_old_1d_f'', attrs = []\<rparr>,
         \<lparr>cpp_type = TensorOld 2 float, py_name = ''tensor_old_2d_f'', attrs = []\<rparr>,
         \<lparr>cpp_type = TensorOld 3 float, py_name = ''tensor_old_3d_f'', attrs = []\<rparr>,
         \<lparr>cpp_type = TensorOld 4 float, py_name = ''tensor_old_4d_f'', attrs = []\<rparr>,
         \<lparr>cpp_type = TensorOld 5 float, py_name = ''tensor_old_5d_f'', attrs = []\<rparr>,
         \<lparr>cpp_type = TensorOld 6 float, py_name = ''tensor_old_6d_f'', attrs = []\<rparr>,
         \<lparr>cpp_type = TensorOld 1 double, py_name = ''tensor_old_1d_d'', attrs = []\<rparr>,
         \<lparr>cpp_type = TensorOld 2 double, py_name = ''tensor_old_2d_d'', attrs = []\<rparr>,
         \<lparr>cpp_type = TensorOld 3 double, py_name = ''tensor_old_3d_d'', attrs = []\<rparr>,
         \<lparr>cpp_type = TensorOld 4 double, py_name = ''tensor_old_4d_d'', attrs = []\<rparr>,
         \<lparr>cpp_type = TensorOld 5 double, py_name = ''tensor_old_5d_d'', attrs = []\<rparr>,
         \<lparr>cpp_type = TensorOld 6 double, py_name = ''tensor_old_6d_d'', attrs = []\<rparr>,
         \<lparr>cpp_type = SomePacket, py_name = ''some_packet'',
           attrs =
             [(''__init__'', py_method (constructor [int32_t, float])),
              (''id'', py_method (lambda (member_ptr SomePacket ''id''))),
              (''some_payload'', py_method (lambda (member_ptr SomePacket ''some_payload'')))]\<rparr>,
         \<lparr>cpp_type = AnotherPacket, py_name = ''another_packet'',
           attrs =
             [(''__init__'', py_method (constructor [int32_t, std_vector float])),
              (''id'', py_method (lambda (member_ptr AnotherPacket ''id''))),
              (''another_payload'',
                 py_method (lambda (member_ptr AnotherPacket ''another_payload'')))]\<rparr>,
         \<lparr>cpp_type = Tensor 1 float, py_name = ''tensor_1d_f'', attrs = []\<rparr>,
         \<lparr>cpp_type = Tensor 1 double, py_name = ''tensor_1d_d'', attrs = []\<rparr>,
         \<lparr>cpp_type = Tensor 2 float, py_name = ''tensor_2d_f'', attrs = []\<rparr>,
         \<lparr>cpp_type = Tensor 2 double, py_name = ''tensor_2d_d'', attrs = []\<rparr>,
         \<lparr>cpp_type = Tensor 3 float, py_name = ''tensor_3d_f'', attrs = []\<rparr>,
         \<lparr>cpp_type = Tensor 3 double, py_name = ''tensor_3d_d'', attrs = []\<rparr>,
         \<lparr>cpp_type = Tensor 4 float, py_name = ''tensor_4d_f'', attrs = []\<rparr>,
         \<lparr>cpp_type = Tensor 4 double, py_name = ''tensor_4d_d'', attrs = []\<rparr>,
         \<lparr>cpp_type = Tensor 5 float, py_name = ''tensor_5d_f'', attrs = []\<rparr>,
         \<lparr>cpp_type = Tensor 5 double, py_name = ''tensor_5d_d'', attrs = []\<rparr>,
         \<lparr>cpp_type = Tensor 6 float, py_name = ''tensor_6d_f'', attrs = []\<rparr>,
         \<lparr>cpp_type = Tensor 6 double, py_name = ''tensor_6d_d'', attrs = []\<rparr>]\<rparr>"
  unfolding PYBIND11_MODULE_hanapy_def by (simp add: binding_defs)

lemma hanapy_returns: "PYBIND11_MODULE_hanapy = Inr (projr PYBIND11_MODULE_hanapy)"
  by (simp add: hanapy_result)

text \<open>The classes bound to the introspected packets and to the tensors.\<close>

lemma some_packet_info:
  "get_type_info (projr PYBIND11_MODULE_hanapy) SomePacket = Some
     \<lparr>cpp_type = SomePacket, py_name = ''some_packet'',
      attrs =
        [(''__init__'', py_method (constructor [int32_t, float])),
         (''id'', py_method (lambda (member_ptr SomePacket ''id''))),
         (''some_payload'', py_method (lambda (member_ptr SomePacket ''some_payload'')))]\<rparr>"
  by (simp add: hanapy_result get_type_info_def)

lemma another_packet_info:
  "get_type_info (projr PYBIND11_MODULE_hanapy) AnotherPacket = Some
     \<lparr>cpp_type = AnotherPacket, py_name = ''another_packet'',
      attrs =
        [(''__init__'', py_method (constructor [int32_t, std_vector float])),
         (''id'', py_method (lambda (member_ptr AnotherPacket ''id''))),
         (''another_payload'',
            py_method (lambda (member_ptr AnotherPacket ''another_payload'')))]\<rparr>"
  by (simp add: hanapy_result get_type_info_def)

lemma ds_cases:
  assumes "d \<in> set ds"
  shows "d = (''1d'', 1) \<or> d = (''2d'', 2) \<or> d = (''3d'', 3) \<or>
         d = (''4d'', 4) \<or> d = (''5d'', 5) \<or> d = (''6d'', 6)"
  using assms by (simp add: ds_def)

lemma ts_cases:
  assumes "t \<in> set ts"
  shows "t = (''f'', float) \<or> t = (''d'', double)"
  using assms by (simp add: ts_def)

lemma c_str_ds:
  assumes "d \<in> set ds"
  shows "c_str (fst d) = fst d"
  using ds_cases [OF assms] by (elim disjE) (simp_all add: c_str_def)

lemma c_str_ts:
  assumes "t \<in> set ts"
  shows "c_str (fst t) = fst t"
  using ts_cases [OF assms] by (elim disjE) (simp_all add: c_str_def)

lemma tensor_info:
  assumes "d \<in> set ds" and "t \<in> set ts"
  shows "get_type_info (projr PYBIND11_MODULE_hanapy) (Tensor (snd d) (snd t)) = Some
     \<lparr>cpp_type = Tensor (snd d) (snd t),
      py_name = ''tensor_'' @ fst d @ ''_'' @ fst t, attrs = []\<rparr>"
  using ds_cases [OF assms(1)] ts_cases [OF assms(2)]
  by (elim disjE) (simp_all add: hanapy_result get_type_info_def)

lemma tensor_old_info:
  assumes "d \<in> set ds" and "t \<in> set ts"
  shows "get_type_info (projr PYBIND11_MODULE_hanapy) (TensorOld (snd d) (snd t)) = Some
     \<lparr>cpp_type = TensorOld (snd d) (snd t),
      py_name = ''tensor_old_'' @ fst d @ ''_'' @ fst t, attrs = []\<rparr>"
  using ds_cases [OF assms(1)] ts_cases [OF assms(2)]
  by (elim disjE) (simp_all add: hanapy_result get_type_info_def)

section \<open>The packets: lookups and calls\<close>

lemma packets_cases:
  assumes "x \<in> set packets"
  shows "x = (''some_packet'', SomePacket) \<or> x = (''another_packet'', AnotherPacket)"
  using assms by (simp add: packets_def)

lemma packet_info:
  assumes "x \<in> set packets"
  shows "get_type_info (projr PYBIND11_MODULE_hanapy) (snd x) = Some
     \<lparr>cpp_type = snd x, py_name = fst x,
      attrs = (''__init__'', py_method (constructor (map fst (data_members (snd x)))))
              # map (\<lambda>f. (snd f, py_method (lambda (member_ptr (snd x) (snd f)))))
                  (data_members (snd x))\<rparr>"
  using packets_cases [OF assms]
  by (elim disjE) (simp_all add: some_packet_info another_packet_info)

lemma packet_attr:
  assumes "x \<in> set packets" and "f \<in> set (data_members (snd x))"
  shows "map_of ((''__init__'', py_method (constructor (map fst (data_members (snd x)))))
              # map (\<lambda>f. (snd f, py_method (lambda (member_ptr (snd x) (snd f)))))
                  (data_members (snd x))) (snd f) = Some (py_method (lambda (member_ptr (snd x) (snd f))))"
  using packets_cases [OF assms(1)] assms(2)
  by (elim disjE) auto

text \<open>Calling a generated accessor: the bound method is read, then called.\<close>

lemma run_lambda:
  assumes "load h a = Some (wrapped self)" and "member_get ka self = Some v"
  shows "run h a (lambda ka) [] = Inr (h @ [converted v], length h)"
proof -
  from assms(1) have "a < length h" and "h ! a = wrapped self"
    by (simp_all add: load_def split: if_splits)
  then have "store h a (wrapped self) = h"
    by (metis list_update_id store_def)
  then show ?thesis
    using assms by (simp add: run_def alloc_def)
qed

lemma call_bound_lambda:
  assumes "load h a = Some (wrapped self)" and "member_get ka self = Some v"
  shows "py_call (h @ [bound_method a (lambda ka)]) (length h) [] =
           Inr (h @ [bound_method a (lambda ka), converted v], Suc (length h))"
proof -
  have "load (h @ [bound_method a (lambda ka)]) a = Some (wrapped self)"
    using assms(1) by (simp add: load_def nth_append split: if_splits)
  from run_lambda [OF this assms(2)] show ?thesis
    by (simp add: py_call_def load_def)
qed

lemma accessor_call:
  assumes "x \<in> set packets" and "f \<in> set (data_members (snd x))"
    and "load h a = Some (wrapped (VStruct (snd x) fs))" and "map_of fs (snd f) = Some v"
  shows "py_call_method (projr PYBIND11_MODULE_hanapy) h a (snd f) [] =
           Inr (h @ [bound_method a (lambda (member_ptr (snd x) (snd f))), converted v],
                Suc (length h))"
proof -
  have get: "member_get (member_ptr (snd x) (snd f)) (VStruct (snd x) fs) = Some v"
    using assms(4) by simp
  have "py_getattr (projr PYBIND11_MODULE_hanapy) h a (snd f) =
          Inr (h @ [bound_method a (lambda (member_ptr (snd x) (snd f)))], length h)"
    by (simp add: py_getattr_def assms(3) packet_info [OF assms(1)]
        packet_attr [OF assms(1,2)] alloc_def del: map_of.simps)
  then show ?thesis
    using call_bound_lambda [OF assms(3) get] by (simp add: py_call_method_def)
qed

lemma accessor_setattr:
  assumes "x \<in> set packets" and "f \<in> set (data_members (snd x))"
    and "load h a = Some (wrapped (VStruct (snd x) fs))"
  shows "py_setattr (projr PYBIND11_MODULE_hanapy) h a (snd f) w = Inl AttributeError"
  by (simp add: py_setattr_def assms(3) packet_info [OF assms(1)]
        packet_attr [OF assms(1,2)] del: map_of.simps)

lemma hanapy_exI:
  assumes "P (projr PYBIND11_MODULE_hanapy)"
  shows "\<exists>m. PYBIND11_MODULE_hanapy = Inr m \<and> P m"
  using assms hanapy_returns by blast

section \<open>The constructors of the generated packet bindings\<close>

text \<open>
  Claim C1. For every packet in the list \<open>packets\<close>, the initialisation returns a
  module in which the packet's type is bound under the listed name, with exactly one
  \<^verbatim>\<open>__init__\<close>: the constructor whose parameter types are the types of the
  struct's data members in declaration order. Called on an object of that type, this
  constructor accepts an argument list exactly when the types of the arguments are
  these types, in this order. The types are \<^verbatim>\<open>int32_t, float\<close> for
  \<^verbatim>\<open>SomePacket\<close> and \<^verbatim>\<open>int32_t, std::vector<float>\<close> for
  \<^verbatim>\<open>AnotherPacket\<close>.
\<close>

theorem generated_constructor_signature:
  assumes "x \<in> set packets"
  shows "\<exists>m. PYBIND11_MODULE_hanapy = Inr m \<and>
          (\<exists>k. get_type_info m (snd x) = Some k \<and>
             py_name k = fst x \<and>
             filter (\<lambda>a. fst a = ''__init__'') (attrs k) =
               [(''__init__'', py_method (constructor (map fst (data_members (snd x)))))] \<and>
             (\<forall>self args. decltype self = snd x \<longrightarrow>
                (\<exists>r. invoke (constructor (map fst (data_members (snd x)))) self args = Inr r)
                  = (map decltype args = map fst (data_members (snd x)))) \<and>
             map snd packets = [SomePacket, AnotherPacket] \<and>
             map fst (data_members SomePacket) = [int32_t, float] \<and>
             map fst (data_members AnotherPacket) = [int32_t, std_vector float])"
proof (intro hanapy_exI exI conjI)
  let ?k = "\<lparr>cpp_type = snd x, py_name = fst x,
      attrs = (''__init__'', py_method (constructor (map fst (data_members (snd x)))))
              # map (\<lambda>f. (snd f, py_method (lambda (member_ptr (snd x) (snd f)))))
                  (data_members (snd x))\<rparr>"
  show "get_type_info (projr PYBIND11_MODULE_hanapy) (snd x) = Some ?k"
    by (rule packet_info [OF assms])
  show "py_name ?k = fst x"
    by simp
  show "filter (\<lambda>a. fst a = ''__init__'') (attrs ?k) =
          [(''__init__'', py_method (constructor (map fst (data_members (snd x)))))]"
    using packets_cases [OF assms] by (elim disjE) simp_all
  show "\<forall>self args. decltype self = snd x \<longrightarrow>
              (\<exists>r. invoke (constructor (map fst (data_members (snd x)))) self args = Inr r)
                = (map decltype args = map fst (data_members (snd x)))"
    by simp
  show "map snd packets = [SomePacket, AnotherPacket]"
    by (simp add: packets_def)
  show "map fst (data_members SomePacket) = [int32_t, float]"
    and "map fst (data_members AnotherPacket) = [int32_t, std_vector float]"
    by simp_all
qed

theorem generated_constructor_signature_witness:
  "\<exists>m. PYBIND11_MODULE_hanapy = Inr m \<and>
     (\<exists>k. get_type_info m AnotherPacket = Some k \<and>
        py_name k = ''another_packet'' \<and>
        filter (\<lambda>a. fst a = ''__init__'') (attrs k) =
          [(''__init__'', py_method (constructor [int32_t, std_vector float]))])"
proof -
  have "(''another_packet'', AnotherPacket) \<in> set packets"
    by (simp add: packets_def)
  from generated_constructor_signature [OF this]
  obtain m k where "PYBIND11_MODULE_hanapy = Inr m"
    and "get_type_info m AnotherPacket = Some k"
    and "py_name k = ''another_packet''"
    and "filter (\<lambda>a. fst a = ''__init__'') (attrs k) =
          [(''__init__'', py_method (constructor [int32_t, std_vector float]))]"
    by auto
  then show ?thesis by blast
qed

section \<open>The names of the generated tensor bindings\<close>

text \<open>
  Claim C4, as stated: the name of the binding of a combination is the concatenation
  of its two component names. It is not: the combination named \<^verbatim>\<open>1d\<close> and
  \<^verbatim>\<open>f\<close> is bound as \<^verbatim>\<open>tensor_1d_f\<close>, which is not
  \<^verbatim>\<open>1df\<close>.
\<close>

theorem tensor_name_plain_concat_counterexample:
  "((''1d'', 1), (''f'', float)) \<in> set (cartesian_product ds ts) \<and>
   (\<exists>m. PYBIND11_MODULE_hanapy = Inr m \<and>
      (\<exists>k. get_type_info m (Tensor 1 float) = Some k \<and>
         py_name k = ''tensor_1d_f'' \<and> py_name k \<noteq> ''1d'' @ ''f''))"
proof (intro conjI hanapy_exI)
  have d: "(''1d'', 1) \<in> set ds" by (simp add: ds_def)
  have t: "(''f'', float) \<in> set ts" by (simp add: ts_def)
  show "((''1d'', 1), (''f'', float)) \<in> set (cartesian_product ds ts)"
    by (simp add: ds_def ts_def)
  show "\<exists>k. get_type_info (projr PYBIND11_MODULE_hanapy) (Tensor 1 float) = Some k \<and>
         py_name k = ''tensor_1d_f'' \<and> py_name k \<noteq> ''1d'' @ ''f''"
    using tensor_info [OF d t] by simp
qed

text \<open>
  Claim C4, amended. For every combination of the cross product of \<open>ds\<close> and
  \<open>ts\<close>, the initialisation returns a module in which the tensor type of the
  combination is bound under the name made of the prefix \<^verbatim>\<open>tensor_\<close>, the name
  of the dimension, an underscore and the name of the scalar type.
\<close>

theorem tensor_binding_name:
  assumes "dt \<in> set (cartesian_product ds ts)"
  shows "\<exists>m. PYBIND11_MODULE_hanapy = Inr m \<and>
           (\<exists>k. get_type_info m (Tensor (snd (fst dt)) (snd (snd dt))) = Some k \<and>
              py_name k = ''tensor_'' @ fst (fst dt) @ ''_'' @ fst (snd dt))"
proof (rule hanapy_exI)
  have "fst dt \<in> set ds" and "snd dt \<in> set ts"
    using assms by (auto simp add: ds_def ts_def)
  from tensor_info [OF this]
  show "\<exists>k. get_type_info (projr PYBIND11_MODULE_hanapy)
               (Tensor (snd (fst dt)) (snd (snd dt))) = Some k \<and>
            py_name k = ''tensor_'' @ fst (fst dt) @ ''_'' @ fst (snd dt)"
    by simp
qed

theorem tensor_binding_name_witness:
  "\<exists>m. PYBIND11_MODULE_hanapy = Inr m \<and>
     (\<exists>k. get_type_info m (Tensor 3 double) = Some k \<and> py_name k = ''tensor_3d_d'')"
proof -
  have "((''3d'', 3), (''d'', double)) \<in> set (cartesian_product ds ts)"
    by (simp add: ds_def ts_def)
  from tensor_binding_name [OF this] show ?thesis by simp
qed

section \<open>Reading and writing packet fields through the bindings\<close>

text \<open>The classes bound to the old style packets.\<close>

lemma some_packet_old_info:
  "get_type_info (projr PYBIND11_MODULE_hanapy) SomePacketOld = Some
     \<lparr>cpp_type = SomePacketOld, py_name = ''some_packet_old'',
      attrs =
        [(''__init__'', py_method (constructor [int32_t, float])),
         (''id'', property (fget (member_ptr SomePacketOld ''id''))
                    (fset (member_ptr SomePacketOld ''id''))),
         (''some_payload'', property (fget (member_ptr SomePacketOld ''some_payload''))
                    (fset (member_ptr SomePacketOld ''some_payload'')))]\<rparr>"
  by (simp add: hanapy_result get_type_info_def)

lemma another_packet_old_info:
  "get_type_info (projr PYBIND11_MODULE_hanapy) AnotherPacketOld = Some
     \<lparr>cpp_type = AnotherPacketOld, py_name = ''another_packet_old'',
      attrs =
        [(''__init__'', py_method (constructor [int32_t, std_vector float])),
         (''id'', property (fget (member_ptr AnotherPacketOld ''id''))
                    (fset (member_ptr AnotherPacketOld ''id''))),
         (''another_payload'',
            property (fget (member_ptr AnotherPacketOld ''another_payload''))
              (fset (member_ptr AnotherPacketOld ''another_payload'')))]\<rparr>"
  by (simp add: hanapy_result get_type_info_def)

lemma load_result: "load (h @ [b, c]) (Suc (length h)) = Some c"
  by (simp add: load_def nth_append)

lemma load_old: "b < length h \<Longrightarrow> load (h @ hs) b = load h b"
  by (simp add: load_def nth_append)

text \<open>
  Claim C2, as stated: every field of an instance of a generated packet binding can be
  read and written through the binding. It cannot be written: the loop of lines 89 to
  94 defines, for each field, a method that reads it, and nothing that assigns it.
  Assigning \<^verbatim>\<open>id\<close> on an instance of \<^verbatim>\<open>some_packet\<close> raises
  \<open>AttributeError\<close>; the same assignment on an instance of the old style
  \<^verbatim>\<open>some_packet_old\<close>, bound with \<^verbatim>\<open>def_readwrite\<close>, changes
  the field.
\<close>

theorem generated_field_write_counterexample:
  "(''some_packet'', SomePacket) \<in> set packets \<and>
   (int32_t, ''id'') \<in> set (data_members SomePacket) \<and>
   (\<exists>m. PYBIND11_MODULE_hanapy = Inr m \<and>
      py_setattr m [wrapped (value_init SomePacket)] 0 ''id'' (VInt32 7) = Inl AttributeError \<and>
      py_setattr m [wrapped (value_init SomePacketOld)] 0 ''id'' (VInt32 7) =
        Inr [wrapped (VStruct SomePacketOld [(''id'', VInt32 7), (''some_payload'', VFloat 0)]),
             py_None])"
proof (intro conjI hanapy_exI)
  show "(''some_packet'', SomePacket) \<in> set packets"
    by (simp add: packets_def)
  show "(int32_t, ''id'') \<in> set (data_members SomePacket)"
    by simp
  show "py_setattr (projr PYBIND11_MODULE_hanapy) [wrapped (value_init SomePacket)] 0 ''id''
          (VInt32 7) = Inl AttributeError"
    by (simp add: py_setattr_def load_def value_init_def some_packet_info)
  show "py_setattr (projr PYBIND11_MODULE_hanapy) [wrapped (value_init SomePacketOld)] 0 ''id''
          (VInt32 7) =
        Inr [wrapped (VStruct SomePacketOld [(''id'', VInt32 7), (''some_payload'', VFloat 0)]),
             py_None]"
    by (simp add: py_setattr_def load_def value_init_def some_packet_old_info run_def
        store_def alloc_def)
qed

text \<open>
  Claim C2, amended. For every packet in the list and every field of its struct, the
  generated binding has a method named after the field that reads it: calling it on
  an instance returns the value that the field holds. Every assignment to that name
  on an instance is refused with \<open>AttributeError\<close>.
\<close>

theorem generated_fields_read_only:
  assumes "x \<in> set packets" and "f \<in> set (data_members (snd x))"
    and "load h a = Some (wrapped (VStruct (snd x) fs))" and "map_of fs (snd f) = Some v"
  shows "\<exists>m. PYBIND11_MODULE_hanapy = Inr m \<and>
          (\<exists>k. get_type_info m (snd x) = Some k \<and>
             map_of (attrs k) (snd f) = Some (py_method (lambda (member_ptr (snd x) (snd f))))) \<and>
          (\<exists>h' r. py_call_method m h a (snd f) [] = Inr (h', r) \<and>
             load h' r = Some (converted v)) \<and>
          (\<forall>w. py_setattr m h a (snd f) w = Inl AttributeError)"
proof (intro hanapy_exI conjI allI)
  show "\<exists>k. get_type_info (projr PYBIND11_MODULE_hanapy) (snd x) = Some k \<and>
             map_of (attrs k) (snd f) = Some (py_method (lambda (member_ptr (snd x) (snd f))))"
    using packet_attr [OF assms(1,2)] by (simp add: packet_info [OF assms(1)] del: map_of.simps)
  show "\<exists>h' r. py_call_method (projr PYBIND11_MODULE_hanapy) h a (snd f) [] = Inr (h', r) \<and>
             load h' r = Some (converted v)"
    by (simp add: accessor_call [OF assms] load_result)
  show "py_setattr (projr PYBIND11_MODULE_hanapy) h a (snd f) w = Inl AttributeError" for w
    by (rule accessor_setattr [OF assms(1,2,3)])
qed

theorem generated_fields_read_only_witness:
  "\<exists>m. PYBIND11_MODULE_hanapy = Inr m \<and>
     (\<exists>h' r. py_call_method m
        [wrapped (VStruct AnotherPacket
           [(''id'', VInt32 3), (''another_payload'', VVector float [VFloat 1, VFloat 2])])]
        0 ''another_payload'' [] = Inr (h', r) \<and>
        load h' r = Some (converted (VVector float [VFloat 1, VFloat 2]))) \<and>
     py_setattr m
        [wrapped (VStruct AnotherPacket
           [(''id'', VInt32 3), (''another_payload'', VVector float [VFloat 1, VFloat 2])])]
        0 ''another_payload'' (VVector float []) = Inl AttributeError"
proof -
  let ?fs = "[(''id'', VInt32 3), (''another_payload'', VVector float [VFloat 1, VFloat 2])]"
  have x: "(''another_packet'', AnotherPacket) \<in> set packets"
    by (simp add: packets_def)
  have f: "(std_vector float, ''another_payload'')
             \<in> set (data_members (snd (''another_packet'', AnotherPacket)))"
    by simp
  have l: "load [wrapped (VStruct AnotherPacket ?fs)] 0 =
             Some (wrapped (VStruct (snd (''another_packet'', AnotherPacket)) ?fs))"
    by (simp add: load_def)
  have v: "map_of ?fs (snd (std_vector float, ''another_payload'')) =
             Some (VVector float [VFloat 1, VFloat 2])"
    by simp
  from generated_fields_read_only [OF x f l v] show ?thesis
    by (simp del: map_of.simps) blast
qed

section \<open>One accessor for each field\<close>

lemma packet_accessors:
  assumes "x \<in> set packets" and "f \<in> set (data_members (snd x))"
  shows "\<exists>k. get_type_info (projr PYBIND11_MODULE_hanapy) (snd x) = Some k \<and>
           filter (\<lambda>a. fst a \<noteq> ''__init__'') (attrs k) =
             map (\<lambda>f. (snd f, py_method (lambda (member_ptr (snd x) (snd f)))))
               (data_members (snd x)) \<and>
           distinct (map fst (attrs k)) \<and>
           filter (\<lambda>a. fst a = snd f) (attrs k) =
             [(snd f, py_method (lambda (member_ptr (snd x) (snd f))))]"
  using packets_cases [OF assms(1)] assms(2)
  by (elim disjE) (auto simp add: some_packet_info another_packet_info)

text \<open>
  Claim C3. For every packet in the list and every field of its struct, the generated
  binding has exactly one attribute named after the field, the accessor of that field
  (the attributes other than \<^verbatim>\<open>__init__\<close> are the accessors of the fields,
  in declaration order, and no name is defined twice); calling the accessor on an
  instance returns the value that the field holds in the instance at that moment.
\<close>

theorem one_accessor_per_field:
  assumes "x \<in> set packets" and "f \<in> set (data_members (snd x))"
    and "load h a = Some (wrapped (VStruct (snd x) fs))" and "map_of fs (snd f) = Some v"
  shows "\<exists>m. PYBIND11_MODULE_hanapy = Inr m \<and>
          (\<exists>k. get_type_info m (snd x) = Some k \<and>
             filter (\<lambda>a. fst a \<noteq> ''__init__'') (attrs k) =
               map (\<lambda>f. (snd f, py_method (lambda (member_ptr (snd x) (snd f)))))
                 (data_members (snd x)) \<and>
             distinct (map fst (attrs k)) \<and>
             filter (\<lambda>a. fst a = snd f) (attrs k) =
               [(snd f, py_method (lambda (member_ptr (snd x) (snd f))))]) \<and>
          (\<exists>h' r. py_call_method m h a (snd f) [] = Inr (h', r) \<and>
             load h' r = Some (converted v))"
proof (intro hanapy_exI conjI)
  show "\<exists>k. get_type_info (projr PYBIND11_MODULE_hanapy) (snd x) = Some k \<and>
             filter (\<lambda>a. fst a \<noteq> ''__init__'') (attrs k) =
               map (\<lambda>f. (snd f, py_method (lambda (member_ptr (snd x) (snd f)))))
                 (data_members (snd x)) \<and>
             distinct (map fst (attrs k)) \<and>
             filter (\<lambda>a. fst a = snd f) (attrs k) =
               [(snd f, py_method (lambda (member_ptr (snd x) (snd f))))]"
    by (rule packet_accessors [OF assms(1,2)])
  show "\<exists>h' r. py_call_method (projr PYBIND11_MODULE_hanapy) h a (snd f) [] = Inr (h', r) \<and>
             load h' r = Some (converted v)"
    by (simp add: accessor_call [OF assms] load_result)
qed

theorem one_accessor_per_field_witness:
  "\<exists>m. PYBIND11_MODULE_hanapy = Inr m \<and>
     (\<exists>k. get_type_info m SomePacket = Some k \<and>
        filter (\<lambda>a. fst a \<noteq> ''__init__'') (attrs k) =
          [(''id'', py_method (lambda (member_ptr SomePacket ''id''))),
           (''some_payload'', py_method (lambda (member_ptr SomePacket ''some_payload'')))] \<and>
        filter (\<lambda>a. fst a = ''some_payload'') (attrs k) =
          [(''some_payload'', py_method (lambda (member_ptr SomePacket ''some_payload'')))]) \<and>
     (\<exists>h' r. py_call_method m
        [wrapped (VStruct SomePacket [(''id'', VInt32 42), (''some_payload'', VFloat 5)])]
        0 ''some_payload'' [] = Inr (h', r) \<and>
        load h' r = Some (converted (VFloat 5)))"
proof -
  let ?fs = "[(''id'', VInt32 42), (''some_payload'', VFloat 5)]"
  have x: "(''some_packet'', SomePacket) \<in> set packets"
    by (simp add: packets_def)
  have f: "(float, ''some_payload'') \<in> set (data_members (snd (''some_packet'', SomePacket)))"
    by simp
  have l: "load [wrapped (VStruct SomePacket ?fs)] 0 =
             Some (wrapped (VStruct (snd (''some_packet'', SomePacket)) ?fs))"
    by (simp add: load_def)
  have v: "map_of ?fs (snd (float, ''some_payload'')) = Some (VFloat 5)"
    by simp
  from one_accessor_per_field [OF x f l v] show ?thesis
    by (simp del: map_of.simps) blast
qed

section \<open>What a call of an accessor changes\<close>

text \<open>
  Claim C10. Calling a generated accessor on an instance leaves the instance as it
  was (as every object that the heap held before the call), and the result is a new
  object, at an address that was free before the call, holding a copy of the field:
  whatever is stored at the address of the result afterwards, the instance and its
  fields stay the same.
\<close>

theorem accessor_call_frame:
  assumes "x \<in> set packets" and "f \<in> set (data_members (snd x))"
    and "load h a = Some (wrapped (VStruct (snd x) fs))" and "map_of fs (snd f) = Some v"
  shows "\<exists>m. PYBIND11_MODULE_hanapy = Inr m \<and>
          (\<exists>h' r. py_call_method m h a (snd f) [] = Inr (h', r) \<and>
             load h' a = Some (wrapped (VStruct (snd x) fs)) \<and>
             (\<forall>b. b < length h \<longrightarrow> load h' b = load h b) \<and>
             load h r = None \<and>
             load h' r = Some (converted v) \<and>
             (\<forall>ob. load (store h' r ob) a = Some (wrapped (VStruct (snd x) fs))))"
proof (rule hanapy_exI)
  let ?h' = "h @ [bound_method a (lambda (member_ptr (snd x) (snd f))), converted v]"
  have a: "a < length h"
    using assms(3) by (simp add: load_def split: if_splits)
  have "load ?h' a = Some (wrapped (VStruct (snd x) fs))"
    using a assms(3) by (simp add: load_old)
  moreover have "\<forall>b. b < length h \<longrightarrow> load ?h' b = load h b"
    by (simp add: load_old)
  moreover have "load h (Suc (length h)) = None"
    by (simp add: load_def)
  moreover have "load ?h' (Suc (length h)) = Some (converted v)"
    by (rule load_result)
  moreover have "\<forall>ob. load (store ?h' (Suc (length h)) ob) a = Some (wrapped (VStruct (snd x) fs))"
    using a assms(3) by (simp add: load_def store_def nth_append split: if_splits)
  ultimately
  show "\<exists>h' r. py_call_method (projr PYBIND11_MODULE_hanapy) h a (snd f) [] = Inr (h', r) \<and>
             load h' a = Some (wrapped (VStruct (snd x) fs)) \<and>
             (\<forall>b. b < length h \<longrightarrow> load h' b = load h b) \<and>
             load h r = None \<and>
             load h' r = Some (converted v) \<and>
             (\<forall>ob. load (store h' r ob) a = Some (wrapped (VStruct (snd x) fs)))"
    unfolding accessor_call [OF assms] by blast
qed

theorem accessor_call_frame_witness:
  "\<exists>m. PYBIND11_MODULE_hanapy = Inr m \<and>
     (\<exists>h' r. py_call_method m
        [wrapped (VStruct AnotherPacket
           [(''id'', VInt32 3), (''another_payload'', VVector float [VFloat 1])])]
        0 ''another_payload'' [] = Inr (h', r) \<and>
        load h' r = Some (converted (VVector float [VFloat 1])) \<and>
        load (store h' r (converted (VVector float [VFloat 1, VFloat 9]))) 0 =
          Some (wrapped (VStruct AnotherPacket
           [(''id'', VInt32 3), (''another_payload'', VVector float [VFloat 1])])))"
proof -
  let ?fs = "[(''id'', VInt32 3), (''another_payload'', VVector float [VFloat 1])]"
  have x: "(''another_packet'', AnotherPacket) \<in> set packets"
    by (simp add: packets_def)
  have f: "(std_vector float, ''another_payload'')
             \<in> set (data_members (snd (''another_packet'', AnotherPacket)))"
    by simp
  have l: "load [wrapped (VStruct AnotherPacket ?fs)] 0 =
             Some (wrapped (VStruct (snd (''another_packet'', AnotherPacket)) ?fs))"
    by (simp add: load_def)
  have v: "map_of ?fs (snd (std_vector float, ''another_payload'')) =
             Some (VVector float [VFloat 1])"
    by simp
  from accessor_call_frame [OF x f l v] show ?thesis
    by (simp del: map_of.simps) blast
qed

section \<open>Every declared type is bound once\<close>

text \<open>The names and types of the classes of the module, in the order of registration.\<close>

lemma hanapy_names:
  "map (\<lambda>k. (py_name k, cpp_type k)) (classes (projr PYBIND11_MODULE_hanapy)) =
     [(''some_packet_old'', SomePacketOld), (''another_packet_old'', AnotherPacketOld),
      (''tensor_old_1d_f'', TensorOld 1 float), (''tensor_old_2d_f'', TensorOld 2 float),
      (''tensor_old_3d_f'', TensorOld 3 float), (''tensor_old_4d_f'', TensorOld 4 float),
      (''tensor_old_5d_f'', TensorOld 5 float), (''tensor_old_6d_f'', TensorOld 6 float),
      (''tensor_old_1d_d'', TensorOld 1 double), (''tensor_old_2d_d'', TensorOld 2 double),
      (''tensor_old_3d_d'', TensorOld 3 double), (''tensor_old_4d_d'', TensorOld 4 double),
      (''tensor_old_5d_d'', TensorOld 5 double), (''tensor_old_6d_d'', TensorOld 6 double),
      (''some_packet'', SomePacket), (''another_packet'', AnotherPacket),
      (''tensor_1d_f'', Tensor 1 float), (''tensor_1d_d'', Tensor 1 double),
      (''tensor_2d_f'', Tensor 2 float), (''tensor_2d_d'', Tensor 2 double),
      (''tensor_3d_f'', Tensor 3 float), (''tensor_3d_d'', Tensor 3 double),
      (''tensor_4d_f'', Tensor 4 float), (''tensor_4d_d'', Tensor 4 double),
      (''tensor_5d_f'', Tensor 5 float), (''tensor_5d_d'', Tensor 5 double),
      (''tensor_6d_f'', Tensor 6 float), (''tensor_6d_d'', Tensor 6 double)]"
  by (simp add: hanapy_result)

lemma filter_map_fst:
  "map cpp_type (filter (\<lambda>k. py_name k = n) ks) =
     map snd (filter (\<lambda>p. fst p = n) (map (\<lambda>k. (py_name k, cpp_type k)) ks))"
  by (induction ks) simp_all

lemma filter_map_snd:
  "map py_name (filter (\<lambda>k. cpp_type k = T) ks) =
     map fst (filter (\<lambda>p. snd p = T) (map (\<lambda>k. (py_name k, cpp_type k)) ks))"
  by (induction ks) simp_all

lemma cartesian_product_ds_ts:
  "cartesian_product ds ts =
     [((''1d'', 1), (''f'', float)), ((''1d'', 1), (''d'', double)),
      ((''2d'', 2), (''f'', float)), ((''2d'', 2), (''d'', double)),
      ((''3d'', 3), (''f'', float)), ((''3d'', 3), (''d'', double)),
      ((''4d'', 4), (''f'', float)), ((''4d'', 4), (''d'', double)),
      ((''5d'', 5), (''f'', float)), ((''5d'', 5), (''d'', double)),
      ((''6d'', 6), (''f'', float)), ((''6d'', 6), (''d'', double))]"
  by (simp add: ds_def ts_def)

text \<open>
  Claim C5. The initialisation returns a module in which, for each of the 2 packets
  of the list, exactly one class has the listed name, and it is the class of the
  packet's type (and exactly one class has that type); for each of the 12
  combinations of the 6 dimensions and the 2 scalar types, exactly one class has the
  derived name, and it is the class of the tensor type of the combination (and
  exactly one class has that type). The 14 derived names are pairwise distinct.
\<close>

theorem every_declared_type_bound_once:
  "\<exists>m. PYBIND11_MODULE_hanapy = Inr m \<and>
     map (\<lambda>x. map cpp_type (filter (\<lambda>k. py_name k = fst x) (classes m))) packets =
       map (\<lambda>x. [snd x]) packets \<and>
     map (\<lambda>x. map py_name (filter (\<lambda>k. cpp_type k = snd x) (classes m))) packets =
       map (\<lambda>x. [fst x]) packets \<and>
     map (\<lambda>dt. map cpp_type (filter (\<lambda>k. py_name k = tensor_name dt) (classes m)))
         (cartesian_product ds ts) =
       map (\<lambda>dt. [Tensor (snd (fst dt)) (snd (snd dt))]) (cartesian_product ds ts) \<and>
     map (\<lambda>dt. map py_name
            (filter (\<lambda>k. cpp_type k = Tensor (snd (fst dt)) (snd (snd dt))) (classes m)))
         (cartesian_product ds ts) =
       map (\<lambda>dt. [tensor_name dt]) (cartesian_product ds ts) \<and>
     length packets = 2 \<and> length ds = 6 \<and> length ts = 2 \<and>
     length (cartesian_product ds ts) = 12 \<and>
     distinct (map fst packets @ map tensor_name (cartesian_product ds ts))"
proof (intro hanapy_exI conjI)
  let ?m = "projr PYBIND11_MODULE_hanapy"
  show "map (\<lambda>x. map cpp_type (filter (\<lambda>k. py_name k = fst x) (classes ?m))) packets =
       map (\<lambda>x. [snd x]) packets"
    unfolding filter_map_fst hanapy_names by (simp add: packets_def)
  show "map (\<lambda>x. map py_name (filter (\<lambda>k. cpp_type k = snd x) (classes ?m))) packets =
       map (\<lambda>x. [fst x]) packets"
    unfolding filter_map_snd hanapy_names by (simp add: packets_def)
  show "map (\<lambda>dt. map cpp_type (filter (\<lambda>k. py_name k = tensor_name dt) (classes ?m)))
         (cartesian_product ds ts) =
       map (\<lambda>dt. [Tensor (snd (fst dt)) (snd (snd dt))]) (cartesian_product ds ts)"
    unfolding filter_map_fst hanapy_names cartesian_product_ds_ts
    by (simp add: tensor_name_def c_str_def)
  show "map (\<lambda>dt. map py_name
            (filter (\<lambda>k. cpp_type k = Tensor (snd (fst dt)) (snd (snd dt))) (classes ?m)))
         (cartesian_product ds ts) =
       map (\<lambda>dt. [tensor_name dt]) (cartesian_product ds ts)"
    unfolding filter_map_snd hanapy_names cartesian_product_ds_ts
    by (simp add: tensor_name_def c_str_def)
  show "length packets = 2" and "length ds = 6" and "length ts = 2"
    by (simp_all add: packets_def ds_def ts_def)
  show "length (cartesian_product ds ts) = 12"
    unfolding cartesian_product_ds_ts by simp
  show "distinct (map fst packets @ map tensor_name (cartesian_product ds ts))"
    unfolding cartesian_product_ds_ts by (simp add: packets_def tensor_name_def c_str_def)
qed

section \<open>The initialisation never throws\<close>

text \<open>
  Claim C6. The initialisation returns a module, so no registration throws. The
  module has 28 classes, 14 of them generated (the packets of the list and the
  tensors) and 14 written by hand; their 28 names are pairwise distinct, and distinct
  from the names that every module has, and their 28 C++ types are pairwise distinct.
\<close>

theorem initialisation_completes:
  "\<exists>m. PYBIND11_MODULE_hanapy = Inr m \<and>
     length (classes m) = 28 \<and>
     length (filter (\<lambda>T. T \<in> set (map snd packets) \<or> is_Tensor T)
               (map cpp_type (classes m))) = 14 \<and>
     length (filter (\<lambda>T. \<not> (T \<in> set (map snd packets) \<or> is_Tensor T))
               (map cpp_type (classes m))) = 14 \<and>
     distinct (map py_name (classes m)) \<and>
     distinct (module_attrs m) \<and>
     distinct (map cpp_type (classes m))"
proof (intro hanapy_exI conjI)
  let ?m = "projr PYBIND11_MODULE_hanapy"
  have names: "map py_name (classes ?m) =
      map fst (map (\<lambda>k. (py_name k, cpp_type k)) (classes ?m))"
    and types: "map cpp_type (classes ?m) =
      map snd (map (\<lambda>k. (py_name k, cpp_type k)) (classes ?m))"
    by simp_all
  show "length (classes ?m) = 28"
    using arg_cong [OF hanapy_names, of length] by simp
  show "distinct (map py_name (classes ?m))"
    unfolding names hanapy_names by simp
  show "distinct (module_attrs ?m)"
    unfolding module_attrs_def names hanapy_names by simp
  show "distinct (map cpp_type (classes ?m))"
    unfolding types hanapy_names by simp
  show "length (filter (\<lambda>T. T \<in> set (map snd packets) \<or> is_Tensor T)
               (map cpp_type (classes ?m))) = 14"
    unfolding types hanapy_names by (simp add: packets_def)
  show "length (filter (\<lambda>T. \<not> (T \<in> set (map snd packets) \<or> is_Tensor T))
               (map cpp_type (classes ?m))) = 14"
    unfolding types hanapy_names by (simp add: packets_def)
qed

section \<open>The tensor bindings are empty\<close>

text \<open>
  Claim C8. For every combination of the cross product, the class bound to the tensor
  type of the combination has its derived name and no attribute at all: no
  constructor, no property, no method. The tensor type has no data member.
\<close>

theorem tensor_binding_has_no_members:
  assumes "dt \<in> set (cartesian_product ds ts)"
  shows "\<exists>m. PYBIND11_MODULE_hanapy = Inr m \<and>
           (\<exists>k. get_type_info m (Tensor (snd (fst dt)) (snd (snd dt))) = Some k \<and>
              py_name k = tensor_name dt \<and> attrs k = []) \<and>
           data_members (Tensor (snd (fst dt)) (snd (snd dt))) = []"
proof (intro hanapy_exI conjI)
  have dt: "fst dt \<in> set ds" "snd dt \<in> set ts"
    using assms by (auto simp add: ds_def ts_def)
  from tensor_info [OF dt]
  show "\<exists>k. get_type_info (projr PYBIND11_MODULE_hanapy)
               (Tensor (snd (fst dt)) (snd (snd dt))) = Some k \<and>
            py_name k = tensor_name dt \<and> attrs k = []"
    by (simp add: tensor_name_def c_str_ds [OF dt(1)] c_str_ts [OF dt(2)])
  show "data_members (Tensor (snd (fst dt)) (snd (snd dt))) = []"
    by simp
qed

theorem tensor_binding_has_no_members_witness:
  "\<exists>m. PYBIND11_MODULE_hanapy = Inr m \<and>
     (\<exists>k. get_type_info m (Tensor 6 float) = Some k \<and>
        py_name k = ''tensor_6d_f'' \<and> attrs k = [])"
proof -
  have "((''6d'', 6), (''f'', float)) \<in> set (cartesian_product ds ts)"
    by (simp add: ds_def ts_def)
  from tensor_binding_has_no_members [OF this] show ?thesis
    by (simp add: tensor_name_def c_str_def)
qed

section \<open>The generated bindings against the hand-written ones\<close>

text \<open>
  Claim C9. In the module that the initialisation returns, the constructor of the
  generated binding of each packet is the constructor of the hand-written binding of
  the corresponding old packet (\<^verbatim>\<open>int32_t, float\<close> and
  \<^verbatim>\<open>int32_t, std::vector<float>\<close>), and for every combination of the cross
  product the name of the hand-written tensor binding is \<^verbatim>\<open>tensor\<close>,
  \<^verbatim>\<open>_old\<close> and a rest, and the name of the generated one is
  \<^verbatim>\<open>tensor\<close> and the same rest.
\<close>

theorem hana_style_refines_old_style:
  assumes "dt \<in> set (cartesian_product ds ts)"
  shows "\<exists>m. PYBIND11_MODULE_hanapy = Inr m \<and>
     (\<exists>new old. get_type_info m SomePacket = Some new \<and>
        get_type_info m SomePacketOld = Some old \<and>
        filter (\<lambda>a. fst a = ''__init__'') (attrs new) =
          [(''__init__'', py_method (constructor [int32_t, float]))] \<and>
        filter (\<lambda>a. fst a = ''__init__'') (attrs old) =
          filter (\<lambda>a. fst a = ''__init__'') (attrs new)) \<and>
     (\<exists>new old. get_type_info m AnotherPacket = Some new \<and>
        get_type_info m AnotherPacketOld = Some old \<and>
        filter (\<lambda>a. fst a = ''__init__'') (attrs new) =
          [(''__init__'', py_method (constructor [int32_t, std_vector float]))] \<and>
        filter (\<lambda>a. fst a = ''__init__'') (attrs old) =
          filter (\<lambda>a. fst a = ''__init__'') (attrs new)) \<and>
     (\<exists>new old. get_type_info m (Tensor (snd (fst dt)) (snd (snd dt))) = Some new \<and>
        get_type_info m (TensorOld (snd (fst dt)) (snd (snd dt))) = Some old \<and>
        py_name old = ''tensor'' @ ''_old'' @ ''_'' @ fst (fst dt) @ ''_'' @ fst (snd dt) \<and>
        py_name new = ''tensor'' @ ''_'' @ fst (fst dt) @ ''_'' @ fst (snd dt))"
proof (intro hanapy_exI conjI)
  let ?m = "projr PYBIND11_MODULE_hanapy"
  show "\<exists>new old. get_type_info ?m SomePacket = Some new \<and>
        get_type_info ?m SomePacketOld = Some old \<and>
        filter (\<lambda>a. fst a = ''__init__'') (attrs new) =
          [(''__init__'', py_method (constructor [int32_t, float]))] \<and>
        filter (\<lambda>a. fst a = ''__init__'') (attrs old) =
          filter (\<lambda>a. fst a = ''__init__'') (attrs new)"
    by (simp add: some_packet_info some_packet_old_info)
  show "\<exists>new old. get_type_info ?m AnotherPacket = Some new \<and>
        get_type_info ?m AnotherPacketOld = Some old \<and>
        filter (\<lambda>a. fst a = ''__init__'') (attrs new) =
          [(''__init__'', py_method (constructor [int32_t, std_vector float]))] \<and>
        filter (\<lambda>a. fst a = ''__init__'') (attrs old) =
          filter (\<lambda>a. fst a = ''__init__'') (attrs new)"
    by (simp add: another_packet_info another_packet_old_info)
  have "fst dt \<in> set ds" and "snd dt \<in> set ts"
    using assms by (auto simp add: ds_def ts_def)
  from tensor_info [OF this] tensor_old_info [OF this]
  show "\<exists>new old. get_type_info ?m (Tensor (snd (fst dt)) (snd (snd dt))) = Some new \<and>
        get_type_info ?m (TensorOld (snd (fst dt)) (snd (snd dt))) = Some old \<and>
        py_name old = ''tensor'' @ ''_old'' @ ''_'' @ fst (fst dt) @ ''_'' @ fst (snd dt) \<and>
        py_name new = ''tensor'' @ ''_'' @ fst (fst dt) @ ''_'' @ fst (snd dt)"
    by simp
qed

theorem hana_style_refines_old_style_witness:
  "\<exists>m. PYBIND11_MODULE_hanapy = Inr m \<and>
     (\<exists>new old. get_type_info m (Tensor 1 float) = Some new \<and>
        get_type_info m (TensorOld 1 float) = Some old \<and>
        py_name old = ''tensor_old_1d_f'' \<and> py_name new = ''tensor_1d_f'')"
proof -
  have "((''1d'', 1), (''f'', float)) \<in> set (cartesian_product ds ts)"
    by (simp add: ds_def ts_def)
  from hana_style_refines_old_style [OF this]
  obtain m where "PYBIND11_MODULE_hanapy = Inr m"
    and "\<exists>new old. get_type_info m (Tensor 1 float) = Some new \<and>
        get_type_info m (TensorOld 1 float) = Some old \<and>
        py_name old = ''tensor_old_1d_f'' \<and> py_name new = ''tensor_1d_f''"
    by auto
  then show ?thesis by blast
qed

section \<open>Extending an axis of the cross product\<close>

text \<open>The module before the loop over the combinations is the module of empty axes.\<close>

lemma and_then_assoc:
  "and_then (and_then x f) g = and_then x (\<lambda>y. and_then (f y) g)"
  by (cases x) simp_all

lemma and_then_Inr: "and_then x Inr = x"
  by (cases x) simp_all

lemma module_body_split:
  assumes "\<not> list_ex (\<lambda>dt. \<not> fits_int (snd (fst dt))) (cartesian_product dims scalars)"
  shows "module_body pkts dims scalars m =
     and_then (module_body pkts [] [] m)
       (hana_for_each (cartesian_product dims scalars) bind_tensor)"
proof -
  have "(\<lambda>k. hana_for_each (cartesian_product [] []) bind_tensor k) = Inr"
    by (rule ext) simp
  with assms show ?thesis
    by (simp add: module_body_def and_then_assoc and_then_Inr)
qed

lemma before_tensors_returns:
  "module_body packets [] [] (PyModule_New ''hanapy'') =
     Inr (projr (module_body packets [] [] (PyModule_New ''hanapy'')))"
  by (simp add: binding_defs)

lemma before_tensors_names:
  "map (\<lambda>k. (py_name k, cpp_type k))
     (classes (projr (module_body packets [] [] (PyModule_New ''hanapy'')))) =
     [(''some_packet_old'', SomePacketOld), (''another_packet_old'', AnotherPacketOld),
      (''tensor_old_1d_f'', TensorOld 1 float), (''tensor_old_2d_f'', TensorOld 2 float),
      (''tensor_old_3d_f'', TensorOld 3 float), (''tensor_old_4d_f'', TensorOld 4 float),
      (''tensor_old_5d_f'', TensorOld 5 float), (''tensor_old_6d_f'', TensorOld 6 float),
      (''tensor_old_1d_d'', TensorOld 1 double), (''tensor_old_2d_d'', TensorOld 2 double),
      (''tensor_old_3d_d'', TensorOld 3 double), (''tensor_old_4d_d'', TensorOld 4 double),
      (''tensor_old_5d_d'', TensorOld 5 double), (''tensor_old_6d_d'', TensorOld 6 double),
      (''some_packet'', SomePacket), (''another_packet'', AnotherPacket)]"
  by (simp add: binding_defs)

text \<open>C strings and the derived name.\<close>

lemma c_str_no_NUL: "CHR 0x00 \<notin> set (c_str s)"
  unfolding c_str_def by (auto dest: set_takeWhileD)

lemma c_str_id:
  assumes "CHR 0x00 \<notin> set s"
  shows "c_str s = s"
  unfolding c_str_def using assms by (simp add: takeWhile_eq_all_conv) metis

lemma c_str_tensor_name: "c_str (tensor_name dt) = tensor_name dt"
  by (rule c_str_id) (simp add: tensor_name_def c_str_no_NUL)

lemma utf8_append:
  assumes "utf8 xs" and "utf8 ys"
  shows "utf8 (xs @ ys)"
  using assms
proof (induction xs rule: utf8.induct)
  case 1
  then show ?case by simp
next
  case (2 b bs)
  from "2.prems"(1) have n: "trail b \<le> length bs"
    and w: "well_formed b (take (trail b) bs)" and r: "utf8 (drop (trail b) bs)"
    by simp_all
  from "2.IH" [OF r "2.prems"(2)] have "utf8 (drop (trail b) bs @ ys)" .
  with n w show ?case by simp
qed

lemma decode_append:
  assumes "PyUnicode_DecodeUTF8 xs" and "PyUnicode_DecodeUTF8 ys"
  shows "PyUnicode_DecodeUTF8 (xs @ ys)"
  using assms by (simp add: PyUnicode_DecodeUTF8_def utf8_append)

lemma decode_tensor_name:
  assumes "PyUnicode_DecodeUTF8 (c_str (fst (fst dt)))"
    and "PyUnicode_DecodeUTF8 (c_str (fst (snd dt)))"
  shows "PyUnicode_DecodeUTF8 (tensor_name dt)"
proof -
  have "PyUnicode_DecodeUTF8 ''tensor_''" and "PyUnicode_DecodeUTF8 ''_''"
    by (simp_all add: PyUnicode_DecodeUTF8_def trail_def well_formed_def)
  with assms show ?thesis
    unfolding tensor_name_def by (intro decode_append)
qed

text \<open>
  The loop over the combinations registers every combination when the loop body
  compiles, the derived names are Python strings, and the derived names and the
  tensor types are new to the module and pairwise distinct.
\<close>

lemma module_attrs_snoc:
  "module_attrs (m\<lparr>classes := classes m @ [k]\<rparr>) = module_attrs m @ [py_name k]"
  by (simp add: module_attrs_def)

lemma bind_tensor_fresh:
  assumes "fits_int (snd (fst dt))" and "PyUnicode_DecodeUTF8 (tensor_name dt)"
    and "tensor_name dt \<notin> set (module_attrs m)"
    and "cpp_type (tensor_binding dt) \<notin> set (map cpp_type (classes m))"
  shows "bind_tensor dt m = Inr (m\<lparr>classes := classes m @ [tensor_binding dt]\<rparr>)"
  using assms by (simp add: bind_tensor_def py_class_def tensor_binding_def c_str_tensor_name)

lemma for_each_bind_tensor:
  assumes "\<forall>dt \<in> set dts. fits_int (snd (fst dt))"
    and "\<forall>dt \<in> set dts. PyUnicode_DecodeUTF8 (tensor_name dt)"
    and "distinct (map tensor_name dts)"
    and "\<forall>dt \<in> set dts. tensor_name dt \<notin> set (module_attrs m)"
    and "distinct (map (\<lambda>dt. cpp_type (tensor_binding dt)) dts)"
    and "\<forall>dt \<in> set dts. cpp_type (tensor_binding dt) \<notin> set (map cpp_type (classes m))"
  shows "hana_for_each dts bind_tensor m =
           Inr (m\<lparr>classes := classes m @ map tensor_binding dts\<rparr>)"
  using assms
proof (induction dts arbitrary: m)
  case Nil
  then show ?case by simp
next
  case (Cons dt dts)
  let ?m = "m\<lparr>classes := classes m @ [tensor_binding dt]\<rparr>"
  have step: "bind_tensor dt m = Inr ?m"
    using Cons.prems by (intro bind_tensor_fresh) simp_all
  have "hana_for_each dts bind_tensor ?m =
          Inr (?m\<lparr>classes := classes ?m @ map tensor_binding dts\<rparr>)"
  proof (rule Cons.IH)
    show "\<forall>x \<in> set dts. fits_int (snd (fst x))"
      using Cons.prems(1) by simp
    show "\<forall>x \<in> set dts. PyUnicode_DecodeUTF8 (tensor_name x)"
      using Cons.prems(2) by simp
    show "distinct (map tensor_name dts)"
      using Cons.prems(3) by simp
    show "\<forall>x \<in> set dts. tensor_name x \<notin> set (module_attrs ?m)"
    proof
      fix x
      assume x: "x \<in> set dts"
      from Cons.prems(3) have "tensor_name dt \<notin> tensor_name ` set dts"
        by simp
      with x have "tensor_name x \<noteq> tensor_name dt"
        by (metis image_eqI)
      moreover from Cons.prems(4) x have "tensor_name x \<notin> set (module_attrs m)"
        by simp
      ultimately show "tensor_name x \<notin> set (module_attrs ?m)"
        by (simp add: module_attrs_snoc tensor_binding_def)
    qed
    show "distinct (map (\<lambda>dt. cpp_type (tensor_binding dt)) dts)"
      using Cons.prems(5) by simp
    show "\<forall>x \<in> set dts. cpp_type (tensor_binding x) \<notin> set (map cpp_type (classes ?m))"
    proof
      fix x
      assume x: "x \<in> set dts"
      from Cons.prems(5)
      have "cpp_type (tensor_binding dt) \<notin> (\<lambda>dt. cpp_type (tensor_binding dt)) ` set dts"
        by simp
      with x have "cpp_type (tensor_binding x) \<noteq> cpp_type (tensor_binding dt)"
        by (metis (no_types, lifting) image_eqI)
      moreover from Cons.prems(6) x
      have "cpp_type (tensor_binding x) \<notin> set (map cpp_type (classes m))"
        by simp
      ultimately show "cpp_type (tensor_binding x) \<notin> set (map cpp_type (classes ?m))"
        by simp
    qed
  qed
  with step show ?case by simp
qed

text \<open>The cross product, and when the derived names and the tensor types are distinct.\<close>

lemma cartesian_product_eq: "cartesian_product xs ys = List.product xs ys"
  by (induction xs) simp_all

lemma set_cartesian_product: "set (cartesian_product xs ys) = set xs \<times> set ys"
  by (simp add: cartesian_product_eq)

lemma distinct_cartesian_product:
  assumes "distinct xs" and "distinct ys"
  shows "distinct (cartesian_product xs ys)"
  using assms by (simp add: cartesian_product_eq distinct_product)

lemma tensor_name_inj:
  assumes "tensor_name (d, t) = tensor_name (d', t')"
    and "length (c_str (fst d)) = length (c_str (fst d')) \<or>
         length (c_str (fst t)) = length (c_str (fst t'))"
  shows "c_str (fst d) = c_str (fst d') \<and> c_str (fst t) = c_str (fst t')"
proof -
  from assms(1)
  have "c_str (fst d) @ (''_'' @ c_str (fst t)) = c_str (fst d') @ (''_'' @ c_str (fst t'))"
    by (simp add: tensor_name_def)
  moreover from assms(2)
  have "length (c_str (fst d)) = length (c_str (fst d')) \<or>
        length (''_'' @ c_str (fst t)) = length (''_'' @ c_str (fst t'))"
    by simp
  ultimately have "c_str (fst d) = c_str (fst d') \<and> ''_'' @ c_str (fst t) = ''_'' @ c_str (fst t')"
    by (simp only: append_eq_append_conv)
  then show ?thesis by simp
qed

lemma distinct_tensor_names:
  assumes "distinct (map (\<lambda>d. c_str (fst d)) dims)"
    and "distinct (map (\<lambda>t. c_str (fst t)) scalars)"
    and "(\<forall>d \<in> set dims. length (c_str (fst d)) = 2) \<or>
         (\<forall>t \<in> set scalars. length (c_str (fst t)) = 1)"
  shows "distinct (map tensor_name (cartesian_product dims scalars))"
proof -
  from assms(1,2) have d: "distinct dims" "inj_on (\<lambda>d. c_str (fst d)) (set dims)"
    and t: "distinct scalars" "inj_on (\<lambda>t. c_str (fst t)) (set scalars)"
    by (simp_all add: distinct_map)
  have "inj_on tensor_name (set dims \<times> set scalars)"
  proof (rule inj_onI)
    fix p q
    assume p: "p \<in> set dims \<times> set scalars" and q: "q \<in> set dims \<times> set scalars"
      and eq: "tensor_name p = tensor_name q"
    obtain d1 t1 where p': "p = (d1, t1)" by (cases p)
    obtain d2 t2 where q': "q = (d2, t2)" by (cases q)
    from p q p' q' assms(3)
    have "length (c_str (fst d1)) = length (c_str (fst d2)) \<or>
          length (c_str (fst t1)) = length (c_str (fst t2))"
      by auto
    with eq p' q' have "c_str (fst d1) = c_str (fst d2) \<and> c_str (fst t1) = c_str (fst t2)"
      by (intro tensor_name_inj) simp_all
    with p q p' q' d(2) t(2) show "p = q"
      by (auto dest: inj_onD)
  qed
  with d(1) t(1) show ?thesis
    by (simp add: distinct_map distinct_cartesian_product set_cartesian_product)
qed

lemma distinct_tensor_types:
  assumes "distinct (map snd dims)" and "distinct (map snd scalars)"
  shows "distinct (map (\<lambda>dt. cpp_type (tensor_binding dt)) (cartesian_product dims scalars))"
proof -
  from assms have d: "distinct dims" "inj_on snd (set dims)"
    and t: "distinct scalars" "inj_on snd (set scalars)"
    by (simp_all add: distinct_map)
  have "inj_on (\<lambda>dt. cpp_type (tensor_binding dt)) (set dims \<times> set scalars)"
  proof (rule inj_onI)
    fix p q
    assume p: "p \<in> set dims \<times> set scalars" and q: "q \<in> set dims \<times> set scalars"
      and eq: "cpp_type (tensor_binding p) = cpp_type (tensor_binding q)"
    obtain d1 t1 where p': "p = (d1, t1)" by (cases p)
    obtain d2 t2 where q': "q = (d2, t2)" by (cases q)
    from eq p' q' have "snd d1 = snd d2 \<and> snd t1 = snd t2"
      by (simp add: tensor_binding_def)
    with p q p' q' d(2) t(2) show "p = q"
      by (auto dest: inj_onD)
  qed
  with d(1) t(1) show ?thesis
    by (simp add: distinct_map distinct_cartesian_product set_cartesian_product)
qed

text \<open>Inserting one entry into a tuple, at any position.\<close>

lemma distinct_insert_at:
  assumes "distinct xs" and "x \<notin> set xs"
  shows "distinct (take i xs @ x # drop i xs)"
proof -
  have "set (take i xs) \<inter> set (drop i xs) = {}"
    using assms(1) by (rule set_take_disj_set_drop_if_distinct) simp
  moreover have "x \<notin> set (take i xs)" and "x \<notin> set (drop i xs)"
    using assms(2) by (auto dest: in_set_takeD in_set_dropD)
  ultimately show ?thesis
    using assms(1) by simp
qed

lemma set_insert_at: "set (take i xs @ x # drop i xs) = insert x (set xs)"
proof -
  have "set (take i xs) \<union> set (drop i xs) = set xs"
    by (metis append_take_drop_id set_append)
  then show ?thesis by auto
qed

lemma map_insert_at:
  "map f (take i xs @ x # drop i xs) = take i (map f xs) @ f x # drop i (map f xs)"
  by (simp add: take_map drop_map)

text \<open>The names and the types that the module holds before the loop.\<close>

lemma before_tensors_attrs:
  "module_attrs (projr (module_body packets [] [] (PyModule_New ''hanapy''))) =
     [''__name__'', ''__doc__'', ''__package__'', ''__loader__'', ''__spec__'',
      ''some_packet_old'', ''another_packet_old'',
      ''tensor_old_1d_f'', ''tensor_old_2d_f'', ''tensor_old_3d_f'',
      ''tensor_old_4d_f'', ''tensor_old_5d_f'', ''tensor_old_6d_f'',
      ''tensor_old_1d_d'', ''tensor_old_2d_d'', ''tensor_old_3d_d'',
      ''tensor_old_4d_d'', ''tensor_old_5d_d'', ''tensor_old_6d_d'',
      ''some_packet'', ''another_packet'']"
proof -
  let ?b = "projr (module_body packets [] [] (PyModule_New ''hanapy''))"
  have "map py_name (classes ?b) = map fst (map (\<lambda>k. (py_name k, cpp_type k)) (classes ?b))"
    by simp
  then show ?thesis
    unfolding module_attrs_def before_tensors_names by simp
qed

lemma before_tensors_types:
  "map cpp_type (classes (projr (module_body packets [] [] (PyModule_New ''hanapy'')))) =
     [SomePacketOld, AnotherPacketOld,
      TensorOld 1 float, TensorOld 2 float, TensorOld 3 float,
      TensorOld 4 float, TensorOld 5 float, TensorOld 6 float,
      TensorOld 1 double, TensorOld 2 double, TensorOld 3 double,
      TensorOld 4 double, TensorOld 5 double, TensorOld 6 double,
      SomePacket, AnotherPacket]"
proof -
  let ?b = "projr (module_body packets [] [] (PyModule_New ''hanapy''))"
  have "map cpp_type (classes ?b) = map snd (map (\<lambda>k. (py_name k, cpp_type k)) (classes ?b))"
    by simp
  then show ?thesis
    unfolding before_tensors_names by simp
qed

lemma tensor_type_fresh:
  "cpp_type (tensor_binding dt)
     \<notin> set (map cpp_type (classes (projr (module_body packets [] [] (PyModule_New ''hanapy'')))))"
  unfolding before_tensors_types by (simp add: tensor_binding_def)

lemma no_tensor_before:
  "filter (\<lambda>k. is_Tensor (cpp_type k))
     (classes (projr (module_body packets [] [] (PyModule_New ''hanapy'')))) = []"
proof -
  let ?b = "projr (module_body packets [] [] (PyModule_New ''hanapy''))"
  have "\<forall>T \<in> set (map cpp_type (classes ?b)). \<not> is_Tensor T"
    unfolding before_tensors_types by simp
  then show ?thesis
    by (simp add: filter_empty_conv)
qed

text \<open>A new scalar type: the names of the dimensions all have two characters.\<close>

lemma name_fresh_declared_dimension:
  assumes "d \<in> set ds"
  shows "tensor_name (d, t)
           \<notin> set (module_attrs (projr (module_body packets [] [] (PyModule_New ''hanapy''))))"
  using ds_cases [OF assms] unfolding before_tensors_attrs
  by (elim disjE) (simp_all add: tensor_name_def c_str_def)

text \<open>
  A new dimension: the hand-written tensor names are the names that the loop would
  derive for dimensions named \<^verbatim>\<open>old_1d\<close> to \<^verbatim>\<open>old_6d\<close>.
\<close>

lemma old_names_as_tensor_names:
  assumes "x \<in> set (module_attrs (projr (module_body packets [] [] (PyModule_New ''hanapy''))))"
  shows "x \<in> set [''__name__'', ''__doc__'', ''__package__'', ''__loader__'', ''__spec__'',
          ''some_packet_old'', ''another_packet_old'', ''some_packet'', ''another_packet'']
     \<or> x \<in> set (map tensor_name
              (cartesian_product (map (\<lambda>d. (''old_'' @ fst d, snd d)) ds) ts))"
proof -
  have old: "map tensor_name (cartesian_product (map (\<lambda>d. (''old_'' @ fst d, snd d)) ds) ts) =
     [''tensor_old_1d_f'', ''tensor_old_1d_d'', ''tensor_old_2d_f'', ''tensor_old_2d_d'',
      ''tensor_old_3d_f'', ''tensor_old_3d_d'', ''tensor_old_4d_f'', ''tensor_old_4d_d'',
      ''tensor_old_5d_f'', ''tensor_old_5d_d'', ''tensor_old_6d_f'', ''tensor_old_6d_d'']"
    by (simp add: ds_def ts_def tensor_name_def c_str_def)
  from assms show ?thesis
    unfolding before_tensors_attrs old by (simp only: set_simps insert_iff empty_iff) argo
qed

lemma c_str_old:
  assumes "d \<in> set ds"
  shows "c_str (''old_'' @ fst d) = ''old_'' @ fst d"
  using ds_cases [OF assms] by (elim disjE) (simp_all add: c_str_def)

lemma name_fresh_declared_scalar:
  assumes "t \<in> set ts" and "c_str (fst d) \<notin> set (map (\<lambda>d. ''old_'' @ fst d) ds)"
  shows "tensor_name (d, t)
           \<notin> set (module_attrs (projr (module_body packets [] [] (PyModule_New ''hanapy''))))"
proof
  assume "tensor_name (d, t)
           \<in> set (module_attrs (projr (module_body packets [] [] (PyModule_New ''hanapy''))))"
  from old_names_as_tensor_names [OF this]
  have "tensor_name (d, t) \<in> set (map tensor_name
              (cartesian_product (map (\<lambda>d. (''old_'' @ fst d, snd d)) ds) ts))"
    by (simp add: tensor_name_def [of "(d, t)"])
  then obtain d' t' where d': "d' \<in> set ds" and t': "t' \<in> set ts"
    and eq: "tensor_name (d, t) = tensor_name ((''old_'' @ fst d', snd d'), t')"
    by (auto simp add: set_cartesian_product)
  have "length (c_str (fst t)) = 1" and "length (c_str (fst t')) = 1"
    using ts_cases [OF assms(1)] ts_cases [OF t'] by (auto simp add: c_str_def)
  then have "c_str (fst d) = c_str (fst (''old_'' @ fst d', snd d'))"
    using tensor_name_inj [OF eq] by simp
  then have "c_str (fst d) = ''old_'' @ fst d'"
    using c_str_old [OF d'] by simp
  with d' assms(2) show False
    by auto
qed

text \<open>The whole initialisation on other axes.\<close>

lemma extended_run:
  assumes "distinct (map (\<lambda>d. c_str (fst d)) dims)"
    and "distinct (map (\<lambda>t. c_str (fst t)) scalars)"
    and "(\<forall>d \<in> set dims. length (c_str (fst d)) = 2) \<or>
         (\<forall>t \<in> set scalars. length (c_str (fst t)) = 1)"
    and "distinct (map snd dims)" and "distinct (map snd scalars)"
    and "\<forall>d \<in> set dims. fits_int (snd d) \<and> PyUnicode_DecodeUTF8 (c_str (fst d))"
    and "\<forall>t \<in> set scalars. PyUnicode_DecodeUTF8 (c_str (fst t))"
    and "\<forall>dt \<in> set (cartesian_product dims scalars). tensor_name dt
           \<notin> set (module_attrs (projr (module_body packets [] [] (PyModule_New ''hanapy''))))"
  shows "\<exists>m. module_body packets dims scalars (PyModule_New ''hanapy'') = Inr m \<and>
           filter (\<lambda>k. is_Tensor (cpp_type k)) (classes m) =
             map tensor_binding (cartesian_product dims scalars) \<and>
           distinct (map py_name (classes m))"
proof -
  let ?b = "projr (module_body packets [] [] (PyModule_New ''hanapy''))"
  let ?dts = "cartesian_product dims scalars"
  let ?m = "?b\<lparr>classes := classes ?b @ map tensor_binding ?dts\<rparr>"
  have names: "distinct (map tensor_name ?dts)"
    using assms(1,2,3) by (rule distinct_tensor_names)
  have fits: "\<forall>dt \<in> set ?dts. fits_int (snd (fst dt))"
    using assms(6) by (simp add: set_cartesian_product)
  have loop: "hana_for_each ?dts bind_tensor ?b = Inr ?m"
  proof (rule for_each_bind_tensor)
    show "\<forall>dt \<in> set ?dts. fits_int (snd (fst dt))"
      by (rule fits)
    show "\<forall>dt \<in> set ?dts. PyUnicode_DecodeUTF8 (tensor_name dt)"
    proof
      fix dt
      assume "dt \<in> set ?dts"
      then have "fst dt \<in> set dims" and "snd dt \<in> set scalars"
        by (auto simp add: set_cartesian_product)
      with assms(6,7) show "PyUnicode_DecodeUTF8 (tensor_name dt)"
        by (intro decode_tensor_name) simp_all
    qed
    show "distinct (map tensor_name ?dts)"
      by (rule names)
    show "\<forall>dt \<in> set ?dts. tensor_name dt \<notin> set (module_attrs ?b)"
      by (rule assms(8))
    show "distinct (map (\<lambda>dt. cpp_type (tensor_binding dt)) ?dts)"
      using assms(4,5) by (rule distinct_tensor_types)
    show "\<forall>dt \<in> set ?dts. cpp_type (tensor_binding dt) \<notin> set (map cpp_type (classes ?b))"
      using tensor_type_fresh by blast
  qed
  have "\<not> list_ex (\<lambda>dt. \<not> fits_int (snd (fst dt))) ?dts"
    using fits by (simp add: list_ex_iff)
  then have split: "module_body packets dims scalars (PyModule_New ''hanapy'') =
      and_then (module_body packets [] [] (PyModule_New ''hanapy''))
        (hana_for_each ?dts bind_tensor)"
    by (rule module_body_split)
  have run: "module_body packets dims scalars (PyModule_New ''hanapy'') = Inr ?m"
    unfolding split by (subst before_tensors_returns) (simp add: loop)
  have "filter (\<lambda>k. is_Tensor (cpp_type k)) (map tensor_binding ?dts) = map tensor_binding ?dts"
    by (simp add: filter_id_conv tensor_binding_def)
  then have tensors: "filter (\<lambda>k. is_Tensor (cpp_type k)) (classes ?m) = map tensor_binding ?dts"
    by (simp add: no_tensor_before)
  have "map py_name (classes ?b) =
          map fst (map (\<lambda>k. (py_name k, cpp_type k)) (classes ?b))"
    by simp
  then have "distinct (map py_name (classes ?b))"
    unfolding before_tensors_names by simp
  moreover have "py_name \<circ> tensor_binding = tensor_name"
    by (rule ext) (simp add: tensor_binding_def)
  moreover have "set (map py_name (classes ?b)) \<inter> set (map tensor_name ?dts) = {}"
  proof -
    have "set (map py_name (classes ?b)) \<subseteq> set (module_attrs ?b)"
      unfolding module_attrs_def set_append by (rule Un_upper2)
    moreover have "set (map tensor_name ?dts) \<inter> set (module_attrs ?b) = {}"
      unfolding set_map using assms(8) by (intro equals0I) (metis IntE imageE)
    ultimately show ?thesis
      by blast
  qed
  ultimately have "distinct (map py_name (classes ?m))"
    using names by simp
  with run tensors show ?thesis
    by blast
qed

lemma ds_facts:
  "map (\<lambda>d. c_str (fst d)) ds = map fst ds"
  "distinct (map fst ds)" "distinct (map snd ds)"
  "\<forall>d \<in> set ds. length (c_str (fst d)) = 2"
  "\<forall>d \<in> set ds. c_str (fst d) \<notin> set (map (\<lambda>d. ''old_'' @ fst d) ds)"
  "\<forall>d \<in> set ds. fits_int (snd d) \<and> PyUnicode_DecodeUTF8 (c_str (fst d))"
  by (simp_all add: ds_def c_str_def fits_int_def PyUnicode_DecodeUTF8_def trail_def
      well_formed_def)

lemma ts_facts:
  "map (\<lambda>t. c_str (fst t)) ts = map fst ts"
  "distinct (map fst ts)" "distinct (map snd ts)"
  "\<forall>t \<in> set ts. length (c_str (fst t)) = 1"
  "\<forall>t \<in> set ts. PyUnicode_DecodeUTF8 (c_str (fst t))"
  by (simp_all add: ts_def c_str_def PyUnicode_DecodeUTF8_def trail_def well_formed_def)

lemma extend_dimensions:
  assumes "c_str (fst e) \<notin> set (map fst ds)" and "snd e \<notin> set (map snd ds)"
    and "fits_int (snd e)" and "PyUnicode_DecodeUTF8 (c_str (fst e))"
    and "c_str (fst e) \<notin> set (map (\<lambda>d. ''old_'' @ fst d) ds)"
  shows "\<exists>m. module_body packets (take i ds @ e # drop i ds) ts (PyModule_New ''hanapy'') = Inr m \<and>
           filter (\<lambda>k. is_Tensor (cpp_type k)) (classes m) =
             map tensor_binding (cartesian_product (take i ds @ e # drop i ds) ts) \<and>
           distinct (map py_name (classes m))"
proof (rule extended_run)
  let ?ds = "take i ds @ e # drop i ds"
  have "distinct (map (\<lambda>d. c_str (fst d)) ds)"
    and "c_str (fst e) \<notin> set (map (\<lambda>d. c_str (fst d)) ds)"
    unfolding ds_facts(1) using ds_facts(2) assms(1) by simp_all
  then show "distinct (map (\<lambda>d. c_str (fst d)) ?ds)"
    unfolding map_insert_at by (rule distinct_insert_at)
  show "distinct (map snd ?ds)"
    unfolding map_insert_at using ds_facts(3) assms(2) by (rule distinct_insert_at)
  show "distinct (map (\<lambda>t. c_str (fst t)) ts)"
    unfolding ts_facts(1) by (rule ts_facts(2))
  show "distinct (map snd ts)"
    by (rule ts_facts(3))
  show "(\<forall>d \<in> set ?ds. length (c_str (fst d)) = 2) \<or>
        (\<forall>t \<in> set ts. length (c_str (fst t)) = 1)"
    using ts_facts(4) by blast
  show "\<forall>d \<in> set ?ds. fits_int (snd d) \<and> PyUnicode_DecodeUTF8 (c_str (fst d))"
    unfolding set_insert_at using ds_facts(6) assms(3,4) by blast
  show "\<forall>t \<in> set ts. PyUnicode_DecodeUTF8 (c_str (fst t))"
    by (rule ts_facts(5))
  show "\<forall>dt \<in> set (cartesian_product ?ds ts). tensor_name dt
           \<notin> set (module_attrs (projr (module_body packets [] [] (PyModule_New ''hanapy''))))"
  proof
    fix dt
    assume "dt \<in> set (cartesian_product ?ds ts)"
    then have "dt \<in> insert e (set ds) \<times> set ts"
      unfolding set_cartesian_product set_insert_at .
    then obtain d t where dt: "dt = (d, t)" and d: "d = e \<or> d \<in> set ds" and t: "t \<in> set ts"
      by blast
    from d assms(5) ds_facts(5)
    have "c_str (fst d) \<notin> set (map (\<lambda>d. ''old_'' @ fst d) ds)"
      by blast
    with t show "tensor_name dt
           \<notin> set (module_attrs (projr (module_body packets [] [] (PyModule_New ''hanapy''))))"
      unfolding dt by (rule name_fresh_declared_scalar)
  qed
qed

lemma extend_scalars:
  assumes "c_str (fst e) \<notin> set (map fst ts)" and "snd e \<notin> set (map snd ts)"
    and "PyUnicode_DecodeUTF8 (c_str (fst e))"
  shows "\<exists>m. module_body packets ds (take i ts @ e # drop i ts) (PyModule_New ''hanapy'') = Inr m \<and>
           filter (\<lambda>k. is_Tensor (cpp_type k)) (classes m) =
             map tensor_binding (cartesian_product ds (take i ts @ e # drop i ts)) \<and>
           distinct (map py_name (classes m))"
proof (rule extended_run)
  let ?ts = "take i ts @ e # drop i ts"
  have "distinct (map (\<lambda>t. c_str (fst t)) ts)"
    and "c_str (fst e) \<notin> set (map (\<lambda>t. c_str (fst t)) ts)"
    unfolding ts_facts(1) using ts_facts(2) assms(1) by simp_all
  then show "distinct (map (\<lambda>t. c_str (fst t)) ?ts)"
    unfolding map_insert_at by (rule distinct_insert_at)
  show "distinct (map snd ?ts)"
    unfolding map_insert_at using ts_facts(3) assms(2) by (rule distinct_insert_at)
  show "distinct (map (\<lambda>d. c_str (fst d)) ds)"
    unfolding ds_facts(1) by (rule ds_facts(2))
  show "distinct (map snd ds)"
    by (rule ds_facts(3))
  show "(\<forall>d \<in> set ds. length (c_str (fst d)) = 2) \<or>
        (\<forall>t \<in> set ?ts. length (c_str (fst t)) = 1)"
    using ds_facts(4) by blast
  show "\<forall>d \<in> set ds. fits_int (snd d) \<and> PyUnicode_DecodeUTF8 (c_str (fst d))"
    by (rule ds_facts(6))
  show "\<forall>t \<in> set ?ts. PyUnicode_DecodeUTF8 (c_str (fst t))"
    unfolding set_insert_at using ts_facts(5) assms(3) by blast
  show "\<forall>dt \<in> set (cartesian_product ds ?ts). tensor_name dt
           \<notin> set (module_attrs (projr (module_body packets [] [] (PyModule_New ''hanapy''))))"
    by (auto simp add: set_cartesian_product dest: name_fresh_declared_dimension)
qed

lemma cartesian_product_insert_dimension:
  "set (cartesian_product (take i xs @ e # drop i xs) ys) =
     set (cartesian_product xs ys) \<union> set (map (\<lambda>t. (e, t)) ys)"
  unfolding set_cartesian_product set_insert_at by auto

lemma cartesian_product_insert_scalar:
  "set (cartesian_product xs (take j ys @ e # drop j ys)) =
     set (cartesian_product xs ys) \<union> set (map (\<lambda>d. (d, e)) xs)"
  unfolding set_cartesian_product set_insert_at by auto

text \<open>
  Claim C7, as stated: an extension of an axis by one entry whose name is new on that
  axis gives bindings for the full new cross product. It does not always: a new
  dimension entry \<^verbatim>\<open>("7d", 1)\<close> repeats the value 1, and the registration of
  \<^verbatim>\<open>Tensor<1, float>\<close> under the name \<^verbatim>\<open>tensor_7d_f\<close> throws since
  the type is bound already; a new dimension entry named \<^verbatim>\<open>old_1d\<close> derives
  the name \<^verbatim>\<open>tensor_old_1d_f\<close>, which a hand-written binding has taken; a new
  scalar entry \<^verbatim>\<open>("h", float)\<close> repeats the type \<^verbatim>\<open>float\<close>; a new
  dimension whose name is \<^verbatim>\<open>1d\<close>, a NUL and \<^verbatim>\<open>x\<close> derives
  \<^verbatim>\<open>tensor_1d_f\<close> again, since \<^verbatim>\<open>c_str()\<close> ends at the NUL; a new
  dimension of value 4294967297 is no \<^verbatim>\<open>int\<close>, and the program does not
  compile; a new dimension whose name is the byte 0xFF derives a name that is no
  Python string.
\<close>

theorem extended_axis_duplicate_counterexample:
  "''7d'' \<notin> set (map fst ds) \<and>
   module_body packets (ds @ [(''7d'', 1)]) ts (PyModule_New ''hanapy'') =
     Inl (already_registered ''tensor_7d_f'') \<and>
   ''old_1d'' \<notin> set (map fst ds) \<and>
   module_body packets (ds @ [(''old_1d'', 7)]) ts (PyModule_New ''hanapy'') =
     Inl (already_defined ''tensor_old_1d_f'') \<and>
   ''h'' \<notin> set (map fst ts) \<and>
   module_body packets ds (ts @ [(''h'', float)]) (PyModule_New ''hanapy'') =
     Inl (already_registered ''tensor_1d_h'') \<and>
   ''1d'' @ [CHR 0x00] @ ''x'' \<notin> set (map fst ds) \<and>
   module_body packets (ds @ [(''1d'' @ [CHR 0x00] @ ''x'', 7)]) ts (PyModule_New ''hanapy'') =
     Inl (already_defined ''tensor_1d_f'') \<and>
   ''8d'' \<notin> set (map fst ds) \<and>
   module_body packets (ds @ [(''8d'', 4294967297)]) ts (PyModule_New ''hanapy'') =
     Inl does_not_compile \<and>
   [CHR 0xFF] \<notin> set (map fst ds) \<and>
   module_body packets (ds @ [([CHR 0xFF], 7)]) ts (PyModule_New ''hanapy'') =
     Inl UnicodeDecodeError"
proof (intro conjI)
  show "''7d'' \<notin> set (map fst ds)" and "''old_1d'' \<notin> set (map fst ds)"
    and "''1d'' @ [CHR 0x00] @ ''x'' \<notin> set (map fst ds)"
    and "''8d'' \<notin> set (map fst ds)" and "[CHR 0xFF] \<notin> set (map fst ds)"
    by (simp_all add: ds_def)
  show "''h'' \<notin> set (map fst ts)"
    by (simp add: ts_def)
  show "module_body packets (ds @ [(''7d'', 1)]) ts (PyModule_New ''hanapy'') =
     Inl (already_registered ''tensor_7d_f'')"
    by (simp add: binding_defs)
  show "module_body packets (ds @ [(''old_1d'', 7)]) ts (PyModule_New ''hanapy'') =
     Inl (already_defined ''tensor_old_1d_f'')"
    by (simp add: binding_defs)
  show "module_body packets ds (ts @ [(''h'', float)]) (PyModule_New ''hanapy'') =
     Inl (already_registered ''tensor_1d_h'')"
    by (simp add: binding_defs)
  show "module_body packets (ds @ [(''1d'' @ [CHR 0x00] @ ''x'', 7)]) ts
          (PyModule_New ''hanapy'') = Inl (already_defined ''tensor_1d_f'')"
    by (simp add: binding_defs)
  show "module_body packets (ds @ [(''8d'', 4294967297)]) ts (PyModule_New ''hanapy'') =
     Inl does_not_compile"
    by (simp add: module_body_def ds_def ts_def fits_int_def)
  show "module_body packets (ds @ [([CHR 0xFF], 7)]) ts (PyModule_New ''hanapy'') =
     Inl UnicodeDecodeError"
    by (simp add: binding_defs)
qed

text \<open>
  Claim C7, amended. Insert into the tuple of the dimensions, at any position, one
  entry with these properties: its name, read as a C string (up to its first NUL),
  differs from the names of the declared dimensions, is well-formed UTF-8 and is none
  of \<^verbatim>\<open>old_1d\<close> to \<^verbatim>\<open>old_6d\<close>; its value differs from the values of the
  declared dimensions and is an \<^verbatim>\<open>int\<close>. Or insert into the tuple of the scalar
  types one entry whose name, read as a C string, differs from the names of the
  declared scalar types and is well-formed UTF-8, and whose type differs from the
  declared scalar types. Then the initialisation returns a module whose tensor
  bindings are exactly those of the full new cross product, in its order (the
  declared combinations and each entry of the other axis combined with the new one),
  and the names of all classes of the module are pairwise distinct.
\<close>

theorem extended_axis_full_cross_product:
  "(c_str (fst e) \<notin> set (map fst ds) \<and> snd e \<notin> set (map snd ds) \<and>
    fits_int (snd e) \<and> PyUnicode_DecodeUTF8 (c_str (fst e)) \<and>
    c_str (fst e) \<notin> set (map (\<lambda>d. ''old_'' @ fst d) ds) \<longrightarrow>
      (\<exists>m. module_body packets (take i ds @ e # drop i ds) ts (PyModule_New ''hanapy'') = Inr m \<and>
         filter (\<lambda>k. is_Tensor (cpp_type k)) (classes m) =
           map tensor_binding (cartesian_product (take i ds @ e # drop i ds) ts) \<and>
         distinct (map py_name (classes m))) \<and>
      set (cartesian_product (take i ds @ e # drop i ds) ts) =
        set (cartesian_product ds ts) \<union> set (map (\<lambda>t. (e, t)) ts)) \<and>
   (c_str (fst e') \<notin> set (map fst ts) \<and> snd e' \<notin> set (map snd ts) \<and>
    PyUnicode_DecodeUTF8 (c_str (fst e')) \<longrightarrow>
      (\<exists>m. module_body packets ds (take j ts @ e' # drop j ts) (PyModule_New ''hanapy'') = Inr m \<and>
         filter (\<lambda>k. is_Tensor (cpp_type k)) (classes m) =
           map tensor_binding (cartesian_product ds (take j ts @ e' # drop j ts)) \<and>
         distinct (map py_name (classes m))) \<and>
      set (cartesian_product ds (take j ts @ e' # drop j ts)) =
        set (cartesian_product ds ts) \<union> set (map (\<lambda>d. (d, e')) ds))"
  using extend_dimensions [of e i] extend_scalars [of e' j]
    cartesian_product_insert_dimension [of i ds e ts]
    cartesian_product_insert_scalar [of ds j ts e']
  by blast

theorem extended_axis_full_cross_product_witness:
  "take 6 ds @ (''7d'', 7) # drop 6 ds = ds @ [(''7d'', 7)] \<and>
   (\<exists>m. module_body packets (take 6 ds @ (''7d'', 7) # drop 6 ds) ts (PyModule_New ''hanapy'')
          = Inr m \<and>
      filter (\<lambda>k. is_Tensor (cpp_type k)) (classes m) =
        map tensor_binding (cartesian_product (take 6 ds @ (''7d'', 7) # drop 6 ds) ts) \<and>
      distinct (map py_name (classes m))) \<and>
   take 0 ts @ (''h'', int32_t) # drop 0 ts = (''h'', int32_t) # ts \<and>
   (\<exists>m. module_body packets ds (take 0 ts @ (''h'', int32_t) # drop 0 ts)
          (PyModule_New ''hanapy'') = Inr m \<and>
      filter (\<lambda>k. is_Tensor (cpp_type k)) (classes m) =
        map tensor_binding (cartesian_product ds (take 0 ts @ (''h'', int32_t) # drop 0 ts)) \<and>
      distinct (map py_name (classes m)))"
proof -
  have d: "c_str (fst (''7d'', 7::int)) \<notin> set (map fst ds) \<and>
    snd (''7d'', 7::int) \<notin> set (map snd ds) \<and>
    fits_int (snd (''7d'', 7::int)) \<and> PyUnicode_DecodeUTF8 (c_str (fst (''7d'', 7::int))) \<and>
    c_str (fst (''7d'', 7::int)) \<notin> set (map (\<lambda>d. ''old_'' @ fst d) ds)"
    by (simp add: ds_def c_str_def fits_int_def PyUnicode_DecodeUTF8_def trail_def
        well_formed_def)
  have t: "c_str (fst (''h'', int32_t)) \<notin> set (map fst ts) \<and>
    snd (''h'', int32_t) \<notin> set (map snd ts) \<and>
    PyUnicode_DecodeUTF8 (c_str (fst (''h'', int32_t)))"
    by (simp add: ts_def c_str_def PyUnicode_DecodeUTF8_def trail_def well_formed_def)
  have "take 6 ds @ (''7d'', 7) # drop 6 ds = ds @ [(''7d'', 7)]"
    by (simp add: ds_def)
  moreover have "take 0 ts @ (''h'', int32_t) # drop 0 ts = (''h'', int32_t) # ts"
    by simp
  ultimately show ?thesis
    using extended_axis_full_cross_product [of "(''7d'', 7)" 6 "(''h'', int32_t)" 0] d t
    by blast
qed

end
